theory Spec2Isabelle
  imports Main "HOL-Library.Word"
begin

section \<open>JavaScript values and the string operations the agent uses\<close>

text \<open>
  The agent is TypeScript running on Node. A decoded XMTP message carries a \<open>content\<close>
  of type \<open>any\<close>, so the embedding starts from a datatype of the JSON-like values a
  codec can hand to the agent: \<open>undefined\<close>, \<open>null\<close>, booleans, numbers, strings, arrays
  and plain objects.
  \<^item> Numbers are NaN and the integers from \<open>-2^53\<close> to \<open>2^53 - 1\<close>, a 54-bit word read
    as a signed value: each of them is a JavaScript number, and JavaScript prints it in
    full. The falsy numbers are \<open>0\<close> and NaN.
  \<^item> Strings are byte strings, the UTF-8 form of the JavaScript string.
  \<^item> An object is the list of its own properties, with distinct keys, in the order in
    which the runtime enumerates them; its prototype is \<open>Object.prototype\<close>. No value is
    callable.
\<close>

datatype jsval =
    JUndefined
  | JNull
  | JBool bool
  | JNum "54 word"
  | JNaN
  | JStr string
  | JArr "jsval list"
  | JObj "(string \<times> jsval) list"

text \<open>An exception of the runtime: a \<open>TypeError\<close>, or an \<open>Error\<close> with its message.\<close>

datatype exn = TypeError | Error string

definition bind_exn :: "exn + 'a \<Rightarrow> ('a \<Rightarrow> exn + 'b) \<Rightarrow> exn + 'b" where
  "bind_exn r f = (case r of Inl err \<Rightarrow> Inl err | Inr v \<Rightarrow> f v)"

text \<open>Truthiness, as \<open>if (v)\<close>, \<open>!v\<close> and \<open>a && b\<close> test it.\<close>

fun truthy :: "jsval \<Rightarrow> bool" where
  "truthy JUndefined = False"
| "truthy JNull = False"
| "truthy (JBool b) = b"
| "truthy (JNum n) = (n \<noteq> 0)"
| "truthy JNaN = False"
| "truthy (JStr s) = (s \<noteq> [])"
| "truthy (JArr xs) = True"
| "truthy (JObj kvs) = True"

fun typeof :: "jsval \<Rightarrow> string" where
  "typeof JUndefined = ''undefined''"
| "typeof JNull = ''object''"
| "typeof (JBool b) = ''boolean''"
| "typeof (JNum n) = ''number''"
| "typeof JNaN = ''number''"
| "typeof (JStr s) = ''string''"
| "typeof (JArr xs) = ''object''"
| "typeof (JObj kvs) = ''object''"

text \<open>
  Reading a property \<open>v.k\<close> for one of the keys the agent reads (\<open>content\<close>, \<open>text\<close>,
  \<open>message\<close>): a \<open>TypeError\<close> on \<open>null\<close> and \<open>undefined\<close>, the own property of an
  object, \<open>undefined\<close> when it is missing and on every other value.
\<close>

fun get_prop :: "jsval \<Rightarrow> string \<Rightarrow> exn + jsval" where
  "get_prop JUndefined k = Inl TypeError"
| "get_prop JNull k = Inl TypeError"
| "get_prop (JObj kvs) k = Inr (case map_of kvs k of None \<Rightarrow> JUndefined | Some v \<Rightarrow> v)"
| "get_prop v k = Inr JUndefined"

subsection \<open>Numbers as decimal text\<close>

definition digit_char :: "nat \<Rightarrow> char" where
  "digit_char d = ''0123456789'' ! d"

fun nat_to_string :: "nat \<Rightarrow> string" where
  "nat_to_string n =
     (if n < 10 then [digit_char n] else nat_to_string (n div 10) @ [digit_char (n mod 10)])"

declare nat_to_string.simps [simp del]

definition int_to_string :: "int \<Rightarrow> string" where
  "int_to_string i = (if i < 0 then CHR ''-'' # nat_to_string (nat (- i)) else nat_to_string (nat i))"

definition number_to_string :: "54 word \<Rightarrow> string" where
  "number_to_string n = int_to_string (sint n)"

subsection \<open>\<open>String(v)\<close>\<close>

text \<open>
  \<open>String(v)\<close>, which is also what a template literal does to \<open>v\<close>. A primitive gives
  its text. An object is converted through its \<open>toString\<close>: the one of
  \<open>Object.prototype\<close> gives \<open>[object Object]\<close>; an own property of that name hides it,
  is not callable, and then neither is an own \<open>valueOf\<close>, while the inherited \<open>valueOf\<close>
  returns the object itself, so the conversion raises a \<open>TypeError\<close>. An array gives its
  elements joined by commas, where \<open>null\<close> and \<open>undefined\<close> elements are empty and any
  other element is converted in turn, which may raise.
\<close>

fun join_with :: "string \<Rightarrow> string list \<Rightarrow> string" where
  "join_with sep [] = []"
| "join_with sep [x] = x"
| "join_with sep (x # y # ys) = x @ sep @ join_with sep (y # ys)"

fun js_String :: "jsval \<Rightarrow> exn + string"
  and js_String_elements :: "jsval list \<Rightarrow> exn + string list" where
  "js_String JUndefined = Inr ''undefined''"
| "js_String JNull = Inr ''null''"
| "js_String (JBool b) = Inr (if b then ''true'' else ''false'')"
| "js_String (JNum n) = Inr (number_to_string n)"
| "js_String JNaN = Inr ''NaN''"
| "js_String (JStr s) = Inr s"
| "js_String (JArr xs) =
     (case js_String_elements xs of
        Inl err \<Rightarrow> Inl err
      | Inr ts \<Rightarrow> Inr (join_with '','' ts))"
| "js_String (JObj kvs) =
     (case map_of kvs ''toString'' of
        Some f \<Rightarrow> Inl TypeError
      | None \<Rightarrow> Inr ''[object Object]'')"
| "js_String_elements [] = Inr []"
| "js_String_elements (x # xs) =
     (case (if x = JNull \<or> x = JUndefined then Inr [] else js_String x) of
        Inl err \<Rightarrow> Inl err
      | Inr t \<Rightarrow>
          (case js_String_elements xs of
             Inl err \<Rightarrow> Inl err
           | Inr ts \<Rightarrow> Inr (t # ts)))"

text \<open>\<open>return String(v)\<close>: the string as a value, or the exception.\<close>

definition return_String :: "jsval \<Rightarrow> exn + jsval" where
  "return_String v = (case js_String v of Inl err \<Rightarrow> Inl err | Inr s \<Rightarrow> Inr (JStr s))"

subsection \<open>\<open>JSON.stringify(v)\<close>\<close>

definition hex_digit :: "nat \<Rightarrow> char" where
  "hex_digit d = ''0123456789abcdef'' ! d"

text \<open>The escapes of a JSON string: the quote, the backslash and the control characters.\<close>

definition json_escape :: "char \<Rightarrow> string" where
  "json_escape c =
     (if c = CHR 0x22 then [CHR 0x5C, CHR 0x22]
      else if c = CHR 0x5C then [CHR 0x5C, CHR 0x5C]
      else if c = CHR 0x08 then [CHR 0x5C, CHR ''b'']
      else if c = CHR 0x0C then [CHR 0x5C, CHR ''f'']
      else if c = CHR 0x0A then [CHR 0x5C, CHR ''n'']
      else if c = CHR 0x0D then [CHR 0x5C, CHR ''r'']
      else if c = CHR 0x09 then [CHR 0x5C, CHR ''t'']
      else if (of_char c :: nat) < 32
        then [CHR 0x5C, CHR ''u'', CHR ''0'', CHR ''0'',
              hex_digit (of_char c div 16), hex_digit (of_char c mod 16)]
      else [c])"

definition json_quote :: "string \<Rightarrow> string" where
  "json_quote s = CHR 0x22 # concat (map json_escape s) @ [CHR 0x22]"

text \<open>
  \<open>JSON.stringify\<close> gives no text for \<open>undefined\<close> (\<open>None\<close>): at the top the call returns
  \<open>undefined\<close>, in an array the element is written \<open>null\<close>, in an object the property
  is left out. NaN is written \<open>null\<close>. It converts no object through \<open>toString\<close> and,
  on these values, raises nothing: an own \<open>toJSON\<close> that is not callable is written as
  any other property.
\<close>

fun json_text :: "jsval \<Rightarrow> string option" where
  "json_text JUndefined = None"
| "json_text JNull = Some ''null''"
| "json_text (JBool b) = Some (if b then ''true'' else ''false'')"
| "json_text (JNum n) = Some (number_to_string n)"
| "json_text JNaN = Some ''null''"
| "json_text (JStr s) = Some (json_quote s)"
| "json_text (JArr xs) =
     Some (''['' @ join_with '','' (map (\<lambda>x. case json_text x of None \<Rightarrow> ''null'' | Some t \<Rightarrow> t) xs) @ '']'')"
| "json_text (JObj kvs) =
     Some (''{'' @ join_with '',''
        (concat (map (\<lambda>(k, v). case json_text v of None \<Rightarrow> [] | Some t \<Rightarrow> [json_quote k @ '':'' @ t]) kvs))
        @ ''}'')"

definition JSON_stringify :: "jsval \<Rightarrow> jsval" where
  "JSON_stringify v = (case json_text v of None \<Rightarrow> JUndefined | Some t \<Rightarrow> JStr t)"

subsection \<open>String methods\<close>

fun startsWith :: "string \<Rightarrow> string \<Rightarrow> bool" where
  "startsWith s [] = True"
| "startsWith [] (c # cs) = False"
| "startsWith (d # ds) (c # cs) = (d = c \<and> startsWith ds cs)"

text \<open>\<open>s.includes(t)\<close>: \<open>t\<close> occurs in \<open>s\<close> as a contiguous run.\<close>

fun js_includes :: "string \<Rightarrow> string \<Rightarrow> bool" where
  "js_includes [] t = (t = [])"
| "js_includes (c # cs) t = (startsWith (c # cs) t \<or> js_includes cs t)"

text \<open>
  \<open>s.toLowerCase()\<close>. On ASCII it lowers \<open>A\<close> to \<open>Z\<close>. Two characters outside ASCII
  lower to text with an ASCII letter in it, and are lowered as JavaScript does: U+0130
  (\<open>C4 B0\<close>) to \<open>i\<close> followed by U+0307 (\<open>CC 87\<close>), and the Kelvin sign U+212A
  (\<open>E2 84 AA\<close>) to \<open>k\<close>. Every other character outside ASCII is left as it is:
  JavaScript lowers the letters among them to other characters outside ASCII, so the ASCII
  part of the result, which is all that a test \<open>includes\<close> of an ASCII text reads, is exact,
  and two texts that are equal once lowered here are equal once lowered by JavaScript.
\<close>

definition lower_char :: "char \<Rightarrow> char" where
  "lower_char c =
     (case map_of (zip ''ABCDEFGHIJKLMNOPQRSTUVWXYZ'' ''abcdefghijklmnopqrstuvwxyz'') c of
        Some d \<Rightarrow> d
      | None \<Rightarrow> c)"

fun toLowerCase :: "string \<Rightarrow> string" where
  "toLowerCase [] = []"
| "toLowerCase (c # cs) =
     (if startsWith (c # cs) [CHR 0xC4, CHR 0xB0]
        then [CHR ''i'', CHR 0xCC, CHR 0x87] @ toLowerCase (drop 1 cs)
      else if startsWith (c # cs) [CHR 0xE2, CHR 0x84, CHR 0xAA]
        then CHR ''k'' # toLowerCase (drop 2 cs)
      else lower_char c # toLowerCase cs)"

text \<open>
  \<open>s.trim()\<close> strips white space and line terminators from both ends: TAB, LF, VT, FF,
  CR, the space, U+00A0, U+1680, U+2000 to U+200A, U+2028, U+2029, U+202F, U+205F, U+3000
  and U+FEFF, each in its UTF-8 form.
\<close>

definition WHITE_SPACE :: "string list" where
  "WHITE_SPACE =
     [[CHR 0x09], [CHR 0x0A], [CHR 0x0B], [CHR 0x0C], [CHR 0x0D], [CHR 0x20],
      [CHR 0xC2, CHR 0xA0],
      [CHR 0xE1, CHR 0x9A, CHR 0x80],
      [CHR 0xE2, CHR 0x80, CHR 0x80], [CHR 0xE2, CHR 0x80, CHR 0x81],
      [CHR 0xE2, CHR 0x80, CHR 0x82], [CHR 0xE2, CHR 0x80, CHR 0x83],
      [CHR 0xE2, CHR 0x80, CHR 0x84], [CHR 0xE2, CHR 0x80, CHR 0x85],
      [CHR 0xE2, CHR 0x80, CHR 0x86], [CHR 0xE2, CHR 0x80, CHR 0x87],
      [CHR 0xE2, CHR 0x80, CHR 0x88], [CHR 0xE2, CHR 0x80, CHR 0x89],
      [CHR 0xE2, CHR 0x80, CHR 0x8A],
      [CHR 0xE2, CHR 0x80, CHR 0xA8], [CHR 0xE2, CHR 0x80, CHR 0xA9],
      [CHR 0xE2, CHR 0x80, CHR 0xAF],
      [CHR 0xE2, CHR 0x81, CHR 0x9F],
      [CHR 0xE3, CHR 0x80, CHR 0x80],
      [CHR 0xEF, CHR 0xBB, CHR 0xBF]]"

text \<open>
  \<open>strip ws s\<close> removes from the front of \<open>s\<close> every leading occurrence of one of the
  byte sequences \<open>ws\<close>. The end of a string is stripped on its reverse.
\<close>

fun strip :: "string list \<Rightarrow> string \<Rightarrow> string" where
  "strip ws [] = []"
| "strip ws (c # cs) =
     (case find (startsWith (c # cs)) ws of
        None \<Rightarrow> c # cs
      | Some w \<Rightarrow> strip ws (drop (length w - 1) cs))"

definition trimStart :: "string \<Rightarrow> string" where
  "trimStart s = strip WHITE_SPACE s"

definition trimEnd :: "string \<Rightarrow> string" where
  "trimEnd s = rev (strip (map rev WHITE_SPACE) (rev s))"

definition trim :: "string \<Rightarrow> string" where
  "trim s = trimEnd (trimStart s)"

text \<open>
  A string method called on a value that need not be a string: \<open>v.trim()\<close> and
  \<open>v.toLowerCase()\<close> raise a \<open>TypeError\<close> unless \<open>v\<close> is a string.
\<close>

fun as_string :: "jsval \<Rightarrow> exn + string" where
  "as_string (JStr s) = Inr s"
| "as_string v = Inl TypeError"

section \<open>The message envelope\<close>

text \<open>
  The fields of a \<open>DecodedMessage\<close> the agent reads. \<open>contentTypeId\<close> is
  \<open>message.contentType?.typeId\<close>: \<open>None\<close> when the content type is missing.
\<close>

record decoded_message =
  contentTypeId :: "string option"
  content :: jsval
  fallback :: jsval
  parameters :: jsval
  senderInboxId :: string
  conversationId :: string

section \<open>Reply detection and content extraction\<close>

text \<open>
  \<open>isReplyToAgent\<close> is the same function in both variants that have it, up to what it
  logs.
\<close>

definition isReplyToAgent :: "decoded_message \<Rightarrow> string \<Rightarrow> bool" where
  "isReplyToAgent message agentInboxId =
     (if contentTypeId message = Some ''reply'' then True else False)"

subsection \<open>The pattern of the reply fallback text\<close>

text \<open>
  \<open>fallbackText.match(/Replied with "(.+)" to an earlier message/)\<close>: the leftmost
  start, and from there the longest capture. The dot takes any character but a line
  terminator (LF, CR, and U+2028 and U+2029, which are \<open>E2 80 A8\<close> and \<open>E2 80 A9\<close> in
  UTF-8); the capture has at least one character.
\<close>

definition REPLY_PREFIX :: string where
  "REPLY_PREFIX = ''Replied with '' @ [CHR 0x22]"

definition REPLY_SUFFIX :: string where
  "REPLY_SUFFIX = CHR 0x22 # '' to an earlier message''"

fun dot_run :: "string \<Rightarrow> nat" where
  "dot_run [] = 0"
| "dot_run (c # cs) =
     (if c = CHR 0x0A \<or> c = CHR 0x0D then 0
      else if startsWith (c # cs) [CHR 0xE2, CHR 0x80, CHR 0xA8] then 0
      else if startsWith (c # cs) [CHR 0xE2, CHR 0x80, CHR 0xA9] then 0
      else Suc (dot_run cs))"

fun longest_capture :: "string \<Rightarrow> nat \<Rightarrow> string option" where
  "longest_capture rest 0 = None"
| "longest_capture rest (Suc k) =
     (if startsWith (drop (Suc k) rest) REPLY_SUFFIX then Some (take (Suc k) rest)
      else longest_capture rest k)"

definition match_here :: "string \<Rightarrow> string option" where
  "match_here s =
     (if startsWith s REPLY_PREFIX
      then (let rest = drop (length REPLY_PREFIX) s in longest_capture rest (dot_run rest))
      else None)"

fun fallback_match :: "string \<Rightarrow> string option" where
  "fallback_match [] = None"
| "fallback_match (c # cs) =
     (case match_here (c # cs) of Some t \<Rightarrow> Some t | None \<Rightarrow> fallback_match cs)"

subsection \<open>\<open>extractMessageContent\<close>\<close>

text \<open>
  The reply branch is three guarded blocks in a row, each of which either returns or
  falls through to the next (\<open>None\<close>), and then the two last returns. A block is
  written as a function of the field it inspects. Nothing in the function catches an
  exception, so a \<open>String(v)\<close> that raises ends the function with that exception. In
  the parameters block each \<open>String(v)\<close> comes after a log line that puts the same \<open>v\<close>
  in a template literal.
\<close>

type_synonym flow = "(exn + jsval) option"

text \<open>The block on the main content field: \<open>content\<close>, then \<open>text\<close>, then \<open>message\<close>.\<close>

definition reply_content_block :: "jsval \<Rightarrow> flow" where
  "reply_content_block replyContent =
     (if truthy replyContent \<and> typeof replyContent = ''object'' then
        (case get_prop replyContent ''content'' of
           Inl err \<Rightarrow> Some (Inl err)
         | Inr c \<Rightarrow>
           if truthy c then Some (return_String c)
           else (case get_prop replyContent ''text'' of
             Inl err \<Rightarrow> Some (Inl err)
           | Inr t \<Rightarrow>
             if truthy t then Some (return_String t)
             else (case get_prop replyContent ''message'' of
               Inl err \<Rightarrow> Some (Inl err)
             | Inr m \<Rightarrow>
               if truthy m then Some (return_String m) else None)))
      else None)"

text \<open>The block on the fallback field: the captured text, or the whole fallback.\<close>

definition reply_fallback_block :: "jsval \<Rightarrow> flow" where
  "reply_fallback_block fb =
     (if truthy fb \<and> typeof fb = ''string'' then
        (case as_string fb of
           Inl err \<Rightarrow> Some (Inl err)
         | Inr fallbackText \<Rightarrow>
           (case fallback_match fallbackText of
              Some actualMessage \<Rightarrow>
                if actualMessage \<noteq> [] then Some (Inr (JStr actualMessage))
                else Some (Inr (JStr fallbackText))
            | None \<Rightarrow> Some (Inr (JStr fallbackText))))
      else None)"

text \<open>The block on the parameters field: \<open>content\<close>, then \<open>text\<close>.\<close>

definition reply_parameters_block :: "jsval \<Rightarrow> flow" where
  "reply_parameters_block params =
     (if truthy params \<and> typeof params = ''object'' then
        (case get_prop params ''content'' of
           Inl err \<Rightarrow> Some (Inl err)
         | Inr c \<Rightarrow>
           if truthy c then Some (return_String c)
           else (case get_prop params ''text'' of
             Inl err \<Rightarrow> Some (Inl err)
           | Inr t \<Rightarrow>
             if truthy t then Some (return_String t) else None))
      else None)"

definition extractMessageContent :: "decoded_message \<Rightarrow> exn + jsval" where
  "extractMessageContent message =
     (if contentTypeId message = Some ''reply'' then
        (let replyContent = content message in
         case reply_content_block replyContent of
           Some r \<Rightarrow> r
         | None \<Rightarrow>
           (case reply_fallback_block (fallback message) of
              Some r \<Rightarrow> r
            | None \<Rightarrow>
              (case reply_parameters_block (parameters message) of
                 Some r \<Rightarrow> r
               | None \<Rightarrow>
                 if replyContent = JNull \<or> replyContent = JUndefined then Inr (JStr [])
                 else Inr (JSON_stringify replyContent))))
      else
        (let c = content message in
         if c = JNull \<or> c = JUndefined then Inr (JStr [])
         else return_String c))"

subsection \<open>The extraction order as a list of strategies\<close>

text \<open>
  The specification describes the reply branch as a priority list: each strategy either
  matches or does not, and the result is that of the first match. A strategy that matches
  a field returns \<open>String\<close> of it, so what it yields is a string or the exception of that
  conversion. The strategies below follow the specification's words;
  \<open>spec_reply_order\<close> is the list it gives, and \<open>code_reply_order\<close> is that list with the
  three further steps the reply branch has between the raw fallback and the JSON text.
\<close>

type_synonym strategy = "decoded_message \<Rightarrow> (exn + jsval) option"

definition nested_field :: "string \<Rightarrow> strategy" where
  "nested_field k m =
     (case content m of
        JObj kvs \<Rightarrow>
          (case map_of kvs k of
             Some v \<Rightarrow> if truthy v then Some (return_String v) else None
           | None \<Rightarrow> None)
      | _ \<Rightarrow> None)"

definition fallback_pattern :: strategy where
  "fallback_pattern m =
     (case fallback m of
        JStr s \<Rightarrow> map_option (\<lambda>t. Inr (JStr t)) (fallback_match s)
      | _ \<Rightarrow> None)"

definition fallback_verbatim :: strategy where
  "fallback_verbatim m =
     (case fallback m of JStr s \<Rightarrow> if s = [] then None else Some (Inr (JStr s)) | _ \<Rightarrow> None)"

definition json_payload :: strategy where
  "json_payload m = map_option (\<lambda>t. Inr (JStr t)) (json_text (content m))"

definition parameters_field :: "string \<Rightarrow> strategy" where
  "parameters_field k m =
     (case parameters m of
        JObj kvs \<Rightarrow>
          (case map_of kvs k of
             Some v \<Rightarrow> if truthy v then Some (return_String v) else None
           | None \<Rightarrow> None)
      | _ \<Rightarrow> None)"

definition absent_payload :: strategy where
  "absent_payload m =
     (if content m = JNull \<or> content m = JUndefined then Some (Inr (JStr [])) else None)"

fun first_match :: "strategy list \<Rightarrow> decoded_message \<Rightarrow> (exn + jsval) option" where
  "first_match [] m = None"
| "first_match (f # fs) m = (case f m of Some r \<Rightarrow> Some r | None \<Rightarrow> first_match fs m)"

definition spec_reply_order :: "strategy list" where
  "spec_reply_order =
     [nested_field ''content'', nested_field ''text'', nested_field ''message'',
      fallback_pattern, fallback_verbatim, json_payload]"

definition code_reply_order :: "strategy list" where
  "code_reply_order =
     [nested_field ''content'', nested_field ''text'', nested_field ''message'',
      fallback_pattern, fallback_verbatim,
      parameters_field ''content'', parameters_field ''text'', absent_payload,
      json_payload]"

text \<open>
  A value in which no object, at any depth, has an own property named \<open>toString\<close>:
  \<open>String\<close> raises on none of its parts.
\<close>

fun no_own_toString :: "jsval \<Rightarrow> bool" where
  "no_own_toString (JArr xs) = list_all no_own_toString xs"
| "no_own_toString (JObj kvs) =
     (map_of kvs ''toString'' = None \<and> list_all (\<lambda>kv. no_own_toString (snd kv)) kvs)"
| "no_own_toString v = True"

section \<open>The context window (variant \<open>part_002\<close>)\<close>

text \<open>
  The repository holds three variants of the agent, \<open>part_000\<close>, \<open>part_001\<close> and
  \<open>part_002\<close>; a definition that differs between them carries the suffix \<open>_p0\<close>,
  \<open>_p1\<close> or \<open>_p2\<close>. \<open>Date.now()\<close> is a parameter \<open>now\<close>, in milliseconds.
  \<open>recentAgentMessages\<close> is the map from conversation ids to the last message the agent
  sent there.
\<close>

definition SQUABBLE_TRIGGERS_p2 :: "string list" where
  "SQUABBLE_TRIGGERS_p2 = [''@squabble'', ''@squabble.base.eth'']"

record agent_message =
  timestamp :: int
  messageId :: string

type_synonym recent_messages = "string \<rightharpoonup> agent_message"

definition CONTEXT_WINDOW_MS :: int where
  "CONTEXT_WINDOW_MS = 5 * 60 * 1000"

definition trackAgentMessage :: "int \<Rightarrow> recent_messages \<Rightarrow> string \<Rightarrow> string \<Rightarrow> recent_messages" where
  "trackAgentMessage now recentAgentMessages cid mid =
     recentAgentMessages(cid \<mapsto> \<lparr>timestamp = now, messageId = mid\<rparr>)"

definition isWithinContextWindow :: "int \<Rightarrow> recent_messages \<Rightarrow> string \<Rightarrow> bool" where
  "isWithinContextWindow now recentAgentMessages cid =
     (case recentAgentMessages cid of
        None \<Rightarrow> False
      | Some recentMessage \<Rightarrow>
          (let timeDiff = now - timestamp recentMessage in timeDiff \<le> CONTEXT_WINDOW_MS))"

text \<open>
  \<open>shouldRespondToMessage\<close> of \<open>part_002\<close>. The extracted content is whatever
  \<open>extractMessageContent\<close> returned, so \<open>trim\<close> and \<open>toLowerCase\<close> are method calls that
  raise on a value that is not a string; an exception of \<open>extractMessageContent\<close> passes
  through.
\<close>

definition hasTrigger_p2 :: "string \<Rightarrow> bool" where
  "hasTrigger_p2 lowerMessage =
     list_ex (\<lambda>trigger. js_includes lowerMessage (toLowerCase trigger)) SQUABBLE_TRIGGERS_p2"

definition shouldRespondToMessage_p2 ::
  "int \<Rightarrow> recent_messages \<Rightarrow> decoded_message \<Rightarrow> string \<Rightarrow> exn + bool" where
  "shouldRespondToMessage_p2 now recentAgentMessages message agentInboxId =
     bind_exn (extractMessageContent message) (\<lambda>messageContent.
     bind_exn (if \<not> truthy messageContent then Inr True
               else bind_exn (as_string messageContent) (\<lambda>s. Inr (trim s = []))) (\<lambda>isEmpty.
       if isEmpty then
         (if contentTypeId message = Some ''reply''
          then Inr (isWithinContextWindow now recentAgentMessages (conversationId message))
          else Inr False)
       else
         bind_exn (as_string messageContent) (\<lambda>s.
           let lowerMessage = trim (toLowerCase s) in
           if isReplyToAgent message agentInboxId then Inr True
           else if isWithinContextWindow now recentAgentMessages (conversationId message)
             then Inr True
           else Inr (hasTrigger_p2 lowerMessage))))"

definition shouldSendHelpHint_p2 :: "string \<Rightarrow> bool" where
  "shouldSendHelpHint_p2 message =
     (let lowerMessage = trim (toLowerCase message);
          botMentions = [''/bot'', ''/agent'', ''/ai'', ''/help'']
      in list_ex (\<lambda>mention. js_includes lowerMessage mention) botMentions
         \<and> \<not> list_ex (\<lambda>trigger. js_includes lowerMessage (toLowerCase trigger)) SQUABBLE_TRIGGERS_p2)"

section \<open>The conversation state store (variant \<open>part_001\<close>)\<close>

definition SQUABBLE_TRIGGERS_p1 :: "string list" where
  "SQUABBLE_TRIGGERS_p1 = [''/squabble'']"

record ConversationState =
  isWaitingForResponse :: bool
  lastCommand :: string
  messageCount :: int
  lastUpdate :: int

definition STATE_TIMEOUT :: int where
  "STATE_TIMEOUT = 60 * 1000"

definition MAX_CONTEXT_MESSAGES :: int where
  "MAX_CONTEXT_MESSAGES = 5"

type_synonym conversation_states = "string \<rightharpoonup> ConversationState"

text \<open>The object literal that the three reset branches and the two setters' defaults build.\<close>

definition newState :: "int \<Rightarrow> ConversationState" where
  "newState now =
     \<lparr>isWaitingForResponse = False, lastCommand = [], messageCount = 0, lastUpdate = now\<rparr>"

text \<open>
  \<open>getConversationState\<close> reads the store and may write it: the result is the state it
  returns and the store it leaves.
\<close>

definition getConversationState ::
  "int \<Rightarrow> conversation_states \<Rightarrow> string \<Rightarrow> ConversationState \<times> conversation_states" where
  "getConversationState now conversationStates cid =
     (case conversationStates cid of
        None \<Rightarrow> (newState now, conversationStates(cid \<mapsto> newState now))
      | Some state \<Rightarrow>
          (let timeDiff = now - lastUpdate state in
           if timeDiff > STATE_TIMEOUT
             then (newState now, conversationStates(cid \<mapsto> newState now))
           else if messageCount state \<ge> MAX_CONTEXT_MESSAGES
             then (newState now, conversationStates(cid \<mapsto> newState now))
           else (state, conversationStates)))"

definition updateConversationState ::
  "int \<Rightarrow> conversation_states \<Rightarrow> string \<Rightarrow> bool \<Rightarrow> conversation_states" where
  "updateConversationState now conversationStates cid waiting =
     (let currentState = (case conversationStates cid of Some st \<Rightarrow> st | None \<Rightarrow> newState now)
      in conversationStates(cid \<mapsto>
           \<lparr>isWaitingForResponse = waiting,
            lastCommand = lastCommand currentState,
            messageCount = messageCount currentState + 1,
            lastUpdate = now\<rparr>))"

definition setConversationState ::
  "int \<Rightarrow> conversation_states \<Rightarrow> string \<Rightarrow> bool \<Rightarrow> string \<Rightarrow> conversation_states" where
  "setConversationState now conversationStates cid waiting command =
     (let currentState = (case conversationStates cid of Some st \<Rightarrow> st | None \<Rightarrow> newState now)
      in conversationStates(cid \<mapsto>
           \<lparr>isWaitingForResponse = waiting,
            lastCommand = command,
            messageCount = messageCount currentState + 1,
            lastUpdate = now\<rparr>))"

definition hasTrigger_p1 :: "string \<Rightarrow> bool" where
  "hasTrigger_p1 lowerMessage =
     list_ex (\<lambda>trigger. js_includes lowerMessage (toLowerCase trigger)) SQUABBLE_TRIGGERS_p1"

definition shouldRespondToMessage_p1 ::
  "int \<Rightarrow> conversation_states \<Rightarrow> string \<Rightarrow> string \<Rightarrow> bool \<times> conversation_states" where
  "shouldRespondToMessage_p1 now conversationStates message cid =
     (let lowerMessage = trim (toLowerCase message);
          (state, conversationStates') = getConversationState now conversationStates cid
      in if isWaitingForResponse state then (True, conversationStates')
         else (hasTrigger_p1 lowerMessage, conversationStates'))"

definition shouldSendHelpHint_p1 :: "string \<Rightarrow> bool" where
  "shouldSendHelpHint_p1 message =
     (let lowerMessage = trim (toLowerCase message);
          botMentions = [''bot'', ''agent'', ''ai'', ''help'']
      in list_ex (\<lambda>mention. js_includes lowerMessage mention) botMentions
         \<and> \<not> list_ex (\<lambda>trigger. js_includes lowerMessage (toLowerCase trigger)) SQUABBLE_TRIGGERS_p1)"

section \<open>The collaborators of the handler\<close>

text \<open>
  The transport and the agent runtime are outside the repository. The handler sees them
  as calls that return or throw, so a \<open>client\<close> gives the outcome of each call:
  \<^item> \<open>getConversationById\<close>: the conversation handle, \<open>null\<close>, or an exception;
  \<^item> \<open>inboxStateFromInboxIds\<close> for the sender;
  \<^item> \<open>initializeAgent\<close> for the sender, which builds the wallet, the tools and the agent
    and rethrows whatever fails there;
  \<^item> \<open>agentStream\<close>: the texts of the agent chunks that \<open>agent.stream\<close> yields for a thread
    and a message, or an exception;
  \<^item> \<open>send\<close>: the id of the sent message or an exception. Its first argument counts the
    sends the handler has made before this one, so that a first send can fail and a second
    succeed.
  Every call the handler makes is recorded, in order, in a trace.
\<close>

record Conversation =
  conv_id :: string

record client =
  inboxId :: string
  getConversationById :: "string \<Rightarrow> exn + Conversation option"
  inboxStateFromInboxIds :: "string \<Rightarrow> exn + jsval"
  initializeAgent :: "string \<Rightarrow> exn + unit"
  agentStream :: "string \<Rightarrow> jsval \<Rightarrow> exn + string list"
  send :: "nat \<Rightarrow> string \<Rightarrow> string \<Rightarrow> exn + string"

datatype event =
    GetConversation string
  | InboxState string
  | InitializeAgent string
  | AgentStream string jsval
  | Send string string

fun is_send :: "event \<Rightarrow> bool" where
  "is_send (Send cid text) = True"
| "is_send ev = False"

definition sends_made :: "event list \<Rightarrow> nat" where
  "sends_made tr = length (filter is_send tr)"

definition AGENT_ERROR_REPLY :: string where
  "AGENT_ERROR_REPLY =
     ''Sorry, I encountered an error while processing your request. Please try again later.''"

definition APOLOGY :: string where
  "APOLOGY = ''I encountered an error while processing your request. Please try again later.''"

text \<open>
  \<open>processMessage\<close> appends each agent chunk and a newline to the response and returns it
  trimmed; whatever the stream throws is caught there and answered by a fixed reply.
\<close>

definition processMessage :: "client \<Rightarrow> string \<Rightarrow> jsval \<Rightarrow> string" where
  "processMessage cl thread_id message =
     (case agentStream cl thread_id message of
        Inr chunks \<Rightarrow> trim (concat (map (\<lambda>c. c @ [CHR 0x0A]) chunks))
      | Inl err \<Rightarrow> AGENT_ERROR_REPLY)"

text \<open>
  The \<open>try\<close> block of a handler ends by returning or by throwing; the \<open>catch\<close> block
  needs to know which, and what \<open>conversation\<close> held at that moment. The handler as a
  whole resolves or rejects.
\<close>

record 's attempt =
  thrown :: "exn option"
  conversation :: "Conversation option"
  store :: 's
  trace :: "event list"

datatype completion = Returned | Rejected exn

record 's run =
  completion :: completion
  final :: 's
  calls :: "event list"

text \<open>
  The \<open>catch\<close> block, the same in the three variants: when a conversation was resolved,
  the apology is sent, and that send is awaited outside any \<open>try\<close>.
\<close>

definition catch_block :: "client \<Rightarrow> 's attempt \<Rightarrow> 's run" where
  "catch_block cl a =
     (case thrown a of
        None \<Rightarrow> \<lparr>completion = Returned, final = store a, calls = trace a\<rparr>
      | Some err \<Rightarrow>
          (case conversation a of
             None \<Rightarrow> \<lparr>completion = Returned, final = store a, calls = trace a\<rparr>
           | Some conv \<Rightarrow>
               (case send cl (sends_made (trace a)) (conv_id conv) APOLOGY of
                  Inr mid \<Rightarrow>
                    \<lparr>completion = Returned, final = store a,
                     calls = trace a @ [Send (conv_id conv) APOLOGY]\<rparr>
                | Inl err' \<Rightarrow>
                    \<lparr>completion = Rejected err', final = store a,
                     calls = trace a @ [Send (conv_id conv) APOLOGY]\<rparr>)))"

section \<open>The handler of \<open>part_002\<close>\<close>

definition HELP_HINT_p2 :: string where
  "HELP_HINT_p2 =
     [CHR 0xF0, CHR 0x9F, CHR 0x91, CHR 0x8B] @ '' Hi! I'' @ [CHR 0x27]
     @ ''m the Squabble game agent. You asked for help! Try to invoke the agent with @squabble.base.eth or just @squabble''
     @ [CHR 0x0A]"

text \<open>
  \<open>now\<close> is the clock when the trigger is evaluated, \<open>later\<close> the clock after the agent
  has answered and the answer has been sent.
\<close>

definition handleMessage_try_p2 ::
  "client \<Rightarrow> int \<Rightarrow> int \<Rightarrow> decoded_message \<Rightarrow> recent_messages \<Rightarrow> recent_messages attempt" where
  "handleMessage_try_p2 cl now later message recentAgentMessages =
     (let senderAddress = senderInboxId message;
          botAddress = toLowerCase (inboxId cl);
          ends = (\<lambda>conv tr. \<lparr>thrown = None, conversation = conv,
                     store = recentAgentMessages, trace = tr\<rparr>);
          throws = (\<lambda>err conv tr. \<lparr>thrown = Some err, conversation = conv,
                     store = recentAgentMessages, trace = tr\<rparr>)
      in
      if toLowerCase senderAddress = botAddress then ends None []
      else
        (case extractMessageContent message of
           Inl err \<Rightarrow> throws err None []
         | Inr messageContent \<Rightarrow>
           (let tr1 = [GetConversation (conversationId message)] in
            case getConversationById cl (conversationId message) of
              Inl err \<Rightarrow> throws err None tr1
            | Inr None \<Rightarrow>
                throws (Error (''Could not find conversation for ID: '' @ conversationId message))
                  None tr1
            | Inr (Some conv) \<Rightarrow>
              (case shouldRespondToMessage_p2 now recentAgentMessages message (inboxId cl) of
                 Inl err \<Rightarrow> throws err (Some conv) tr1
               | Inr respond \<Rightarrow>
                 if \<not> respond then
                   (case as_string messageContent of
                      Inl err \<Rightarrow> throws err (Some conv) tr1
                    | Inr text \<Rightarrow>
                      if shouldSendHelpHint_p2 text then
                        (let tr2 = tr1 @ [Send (conv_id conv) HELP_HINT_p2] in
                         case send cl 0 (conv_id conv) HELP_HINT_p2 of
                           Inl err \<Rightarrow> throws err (Some conv) tr2
                         | Inr mid \<Rightarrow> ends (Some conv) tr2)
                      else ends (Some conv) tr1)
                 else
                   (let tr2 = tr1 @ [InboxState senderAddress] in
                    case inboxStateFromInboxIds cl senderAddress of
                      Inl err \<Rightarrow> throws err (Some conv) tr2
                    | Inr senderInboxState \<Rightarrow>
                      (let tr3 = tr2 @ [InitializeAgent senderAddress] in
                       case initializeAgent cl senderAddress of
                         Inl err \<Rightarrow> throws err (Some conv) tr3
                       | Inr agent \<Rightarrow>
                         (let tr4 = tr3 @ [AgentStream senderAddress messageContent];
                              response = processMessage cl senderAddress messageContent
                          in
                          if trim response = ''TOOL_HANDLED'' then ends (Some conv) tr4
                          else
                            (let tr5 = tr4 @ [Send (conv_id conv) response] in
                             case send cl 0 (conv_id conv) response of
                               Inl err \<Rightarrow> throws err (Some conv) tr5
                             | Inr sentMessageId \<Rightarrow>
                                 \<lparr>thrown = None, conversation = Some conv,
                                  store = trackAgentMessage later recentAgentMessages
                                            (conv_id conv) sentMessageId,
                                  trace = tr5\<rparr>))))))))"

definition handleMessage_p2 ::
  "client \<Rightarrow> int \<Rightarrow> int \<Rightarrow> decoded_message \<Rightarrow> recent_messages \<Rightarrow> recent_messages run" where
  "handleMessage_p2 cl now later message recentAgentMessages =
     catch_block cl (handleMessage_try_p2 cl now later message recentAgentMessages)"

section \<open>The handler of \<open>part_001\<close>\<close>

definition HELP_HINT_p1 :: string where
  "HELP_HINT_p1 =
     [CHR 0xF0, CHR 0x9F, CHR 0x91, CHR 0x8B] @ '' Hi! I'' @ [CHR 0x27]
     @ ''m the Squabble game bot. Try using:'' @ [CHR 0x0A]
     @ [CHR 0xE2, CHR 0x80, CHR 0xA2] @ '' `/squabble help` - Get game rules'' @ [CHR 0x0A]
     @ [CHR 0xE2, CHR 0x80, CHR 0xA2] @ '' `/squabble start` - Create a new game'' @ [CHR 0x0A]
     @ [CHR 0xE2, CHR 0x80, CHR 0xA2] @ '' `/squabble leaderboard` - View rankings'' @ [CHR 0x0A]
     @ [CHR 0xE2, CHR 0x80, CHR 0xA2] @ '' Or just say '' @ [CHR 0x27] @ ''start game''
     @ [CHR 0x27] @ '', '' @ [CHR 0x27] @ ''show leaderboard'' @ [CHR 0x27] @ '', etc.''"

definition BET_PROMPT :: string where
  "BET_PROMPT =
     [CHR 0xF0, CHR 0x9F, CHR 0x8E, CHR 0xAE]
     @ '' How much would you like to bet for this game? You can enter an amount or say ''
     @ [CHR 0x27] @ ''no bet'' @ [CHR 0x27] @ '' if you prefer.''"

text \<open>
  The handler runs the agent at two places with the same statements: the sender's inbox
  state, \<open>initializeAgent\<close>, \<open>processMessage\<close>, then \<open>setConversationState\<close> to waiting
  with the message as command, then the send. \<open>respond_with_agent_p1\<close> is that run of
  statements.
\<close>

definition respond_with_agent_p1 ::
  "client \<Rightarrow> int \<Rightarrow> Conversation \<Rightarrow> string \<Rightarrow> string \<Rightarrow> conversation_states \<Rightarrow> event list
     \<Rightarrow> conversation_states attempt" where
  "respond_with_agent_p1 cl later conv senderAddress messageContent conversationStates tr1 =
     (let tr2 = tr1 @ [InboxState senderAddress] in
      case inboxStateFromInboxIds cl senderAddress of
        Inl err \<Rightarrow> \<lparr>thrown = Some err, conversation = Some conv,
                    store = conversationStates, trace = tr2\<rparr>
      | Inr senderInboxState \<Rightarrow>
        (let tr3 = tr2 @ [InitializeAgent senderAddress] in
         case initializeAgent cl senderAddress of
           Inl err \<Rightarrow> \<lparr>thrown = Some err, conversation = Some conv,
                       store = conversationStates, trace = tr3\<rparr>
         | Inr agent \<Rightarrow>
           (let tr4 = tr3 @ [AgentStream senderAddress (JStr messageContent)];
                response = processMessage cl senderAddress (JStr messageContent);
                conversationStates' =
                  setConversationState later conversationStates (conv_id conv) True messageContent;
                tr5 = tr4 @ [Send (conv_id conv) response]
            in
            case send cl 0 (conv_id conv) response of
              Inl err \<Rightarrow> \<lparr>thrown = Some err, conversation = Some conv,
                          store = conversationStates', trace = tr5\<rparr>
            | Inr mid \<Rightarrow> \<lparr>thrown = None, conversation = Some conv,
                          store = conversationStates', trace = tr5\<rparr>)))"

text \<open>
  The handler from the trigger check on: reached when the conversation is not waiting,
  and also after a new trigger has reset a waiting conversation.
\<close>

definition handleMessage_from_trigger_p1 ::
  "client \<Rightarrow> int \<Rightarrow> int \<Rightarrow> Conversation \<Rightarrow> string \<Rightarrow> string \<Rightarrow> conversation_states \<Rightarrow> event list
     \<Rightarrow> conversation_states attempt" where
  "handleMessage_from_trigger_p1 cl now later conv senderAddress messageContent conversationStates tr1 =
     (let (respond, conversationStates1) =
            shouldRespondToMessage_p1 now conversationStates messageContent (conv_id conv)
      in
      if \<not> respond then
        (if shouldSendHelpHint_p1 messageContent then
           (let tr2 = tr1 @ [Send (conv_id conv) HELP_HINT_p1] in
            case send cl 0 (conv_id conv) HELP_HINT_p1 of
              Inl err \<Rightarrow> \<lparr>thrown = Some err, conversation = Some conv,
                          store = conversationStates1, trace = tr2\<rparr>
            | Inr mid \<Rightarrow> \<lparr>thrown = None, conversation = Some conv,
                          store = conversationStates1, trace = tr2\<rparr>)
         else \<lparr>thrown = None, conversation = Some conv,
                store = conversationStates1, trace = tr1\<rparr>)
      else
        (let lowerMessage = toLowerCase messageContent in
         if js_includes lowerMessage ''/squabble start'' \<and> \<not> js_includes lowerMessage ''bet'' then
           (let conversationStates2 =
                  setConversationState now conversationStates1 (conv_id conv) True ''/squabble start'';
                tr2 = tr1 @ [Send (conv_id conv) BET_PROMPT]
            in
            case send cl 0 (conv_id conv) BET_PROMPT of
              Inl err \<Rightarrow> \<lparr>thrown = Some err, conversation = Some conv,
                          store = conversationStates2, trace = tr2\<rparr>
            | Inr mid \<Rightarrow> \<lparr>thrown = None, conversation = Some conv,
                          store = conversationStates2, trace = tr2\<rparr>)
         else respond_with_agent_p1 cl later conv senderAddress messageContent
                conversationStates1 tr1))"

definition handleMessage_try_p1 ::
  "client \<Rightarrow> int \<Rightarrow> int \<Rightarrow> decoded_message \<Rightarrow> conversation_states
     \<Rightarrow> conversation_states attempt" where
  "handleMessage_try_p1 cl now later message conversationStates =
     (let senderAddress = senderInboxId message;
          botAddress = toLowerCase (inboxId cl)
      in
      if toLowerCase senderAddress = botAddress
        then \<lparr>thrown = None, conversation = None, store = conversationStates, trace = []\<rparr>
      else
        (case js_String (content message) of
           Inl err \<Rightarrow> \<lparr>thrown = Some err, conversation = None,
                       store = conversationStates, trace = []\<rparr>
         | Inr messageContent \<Rightarrow>
         (let tr1 = [GetConversation (conversationId message)] in
         case getConversationById cl (conversationId message) of
           Inl err \<Rightarrow> \<lparr>thrown = Some err, conversation = None,
                       store = conversationStates, trace = tr1\<rparr>
         | Inr None \<Rightarrow>
             \<lparr>thrown = Some (Error (''Could not find conversation for ID: ''
                                      @ conversationId message)),
              conversation = None, store = conversationStates, trace = tr1\<rparr>
         | Inr (Some conv) \<Rightarrow>
           (let (state, conversationStates1) =
                  getConversationState now conversationStates (conv_id conv)
            in
            if isWaitingForResponse state then
              (let hasNewTrigger =
                     list_ex (\<lambda>trigger. js_includes (toLowerCase messageContent) (toLowerCase trigger))
                       SQUABBLE_TRIGGERS_p1
               in
               if hasNewTrigger then
                 handleMessage_from_trigger_p1 cl now later conv senderAddress messageContent
                   (updateConversationState now conversationStates1 (conv_id conv) False) tr1
               else
                 respond_with_agent_p1 cl later conv senderAddress messageContent
                   conversationStates1 tr1)
            else
              handleMessage_from_trigger_p1 cl now later conv senderAddress messageContent
                conversationStates1 tr1))))"

definition handleMessage_p1 ::
  "client \<Rightarrow> int \<Rightarrow> int \<Rightarrow> decoded_message \<Rightarrow> conversation_states \<Rightarrow> conversation_states run" where
  "handleMessage_p1 cl now later message conversationStates =
     catch_block cl (handleMessage_try_p1 cl now later message conversationStates)"

section \<open>The dispatch loop\<close>

text \<open>
  \<open>startMessageListener\<close> awaits the handler for each message of the stream, in order,
  outside any \<open>try\<close>: a handler that rejects ends the loop. A finite run of the stream is
  a list of deliveries, each with the message (or nothing, which the loop skips), the
  collaborators as they answer while it is handled, and the two clock readings.
\<close>

record delivery =
  incoming :: "decoded_message option"
  answering :: client
  clock_now :: int
  clock_later :: int

fun message_loop ::
  "(client \<Rightarrow> int \<Rightarrow> int \<Rightarrow> decoded_message \<Rightarrow> 's \<Rightarrow> 's run) \<Rightarrow> delivery list \<Rightarrow> 's \<Rightarrow> 's run" where
  "message_loop handler [] s = \<lparr>completion = Returned, final = s, calls = []\<rparr>"
| "message_loop handler (d # ds) s =
     (case incoming d of
        None \<Rightarrow> message_loop handler ds s
      | Some message \<Rightarrow>
          (let r = handler (answering d) (clock_now d) (clock_later d) message s in
           case completion r of
             Rejected err \<Rightarrow> r
           | Returned \<Rightarrow>
               (let r' = message_loop handler ds (final r)
                in r'\<lparr>calls := calls r @ calls r'\<rparr>)))"

definition startMessageListener_p1 ::
  "delivery list \<Rightarrow> conversation_states \<Rightarrow> conversation_states run" where
  "startMessageListener_p1 = message_loop handleMessage_p1"

definition startMessageListener_p2 ::
  "delivery list \<Rightarrow> recent_messages \<Rightarrow> recent_messages run" where
  "startMessageListener_p2 = message_loop handleMessage_p2"

section \<open>Facts about the pattern and the extraction blocks\<close>

lemma longest_capture_nonempty:
  "longest_capture rest k = Some t \<Longrightarrow> rest \<noteq> [] \<Longrightarrow> t \<noteq> []"
  by (induction k) (auto split: if_splits)
lemma match_here_nonempty: "match_here s = Some t \<Longrightarrow> t \<noteq> []"
proof -
  assume a: "match_here s = Some t"
  let ?rest = "drop (length REPLY_PREFIX) s"
  from a have lc: "longest_capture ?rest (dot_run ?rest) = Some t"
    by (simp add: match_here_def Let_def split: if_splits)
  have "?rest \<noteq> []"
  proof
    assume "?rest = []"
    with lc show False by simp
  qed
  with lc show ?thesis by (rule longest_capture_nonempty)
qed
lemma fallback_match_nonempty: "fallback_match s = Some t \<Longrightarrow> t \<noteq> []"
  by (induction s) (auto split: option.splits dest: match_here_nonempty)
lemma first_match_append:
  "first_match (fs @ gs) m =
     (case first_match fs m of Some r \<Rightarrow> Some r | None \<Rightarrow> first_match gs m)"
  by (induction fs) (auto split: option.splits)
lemma first_match_cases:
  assumes "first_match fs m = Some r"
  obtains f where "f \<in> set fs" and "f m = Some r"
  using assms by (induction fs) (auto split: option.splits)
lemma reply_content_block_eq:
  "reply_content_block (content m) =
     first_match [nested_field ''content'', nested_field ''text'', nested_field ''message''] m"
  by (cases "content m")
    (auto simp: reply_content_block_def nested_field_def split: option.splits)
lemma reply_fallback_block_eq:
  "reply_fallback_block (fallback m) = first_match [fallback_pattern, fallback_verbatim] m"
  by (cases "fallback m")
    (auto simp: reply_fallback_block_def fallback_pattern_def fallback_verbatim_def
      split: option.splits dest: fallback_match_nonempty)
lemma reply_parameters_block_eq:
  "reply_parameters_block (parameters m) =
     first_match [parameters_field ''content'', parameters_field ''text''] m"
  by (cases "parameters m")
    (auto simp: reply_parameters_block_def parameters_field_def split: option.splits)
lemma JSON_stringify_defined:
  "v \<noteq> JUndefined \<Longrightarrow> \<exists>s. json_text v = Some s \<and> JSON_stringify v = JStr s"
  by (cases v) (simp_all add: JSON_stringify_def)
lemma extract_reply_order:
  assumes "contentTypeId m = Some ''reply''"
  shows "Some (extractMessageContent m) = first_match code_reply_order m"
proof -
  have split:
    "code_reply_order =
       [nested_field ''content'', nested_field ''text'', nested_field ''message'']
       @ [fallback_pattern, fallback_verbatim]
       @ [parameters_field ''content'', parameters_field ''text'']
       @ [absent_payload, json_payload]"
    by (simp add: code_reply_order_def)
  have last:
    "first_match [absent_payload, json_payload] m =
       Some (if content m = JNull \<or> content m = JUndefined then Inr (JStr [])
             else Inr (JSON_stringify (content m)))"
    using JSON_stringify_defined [of "content m"]
    by (auto simp: absent_payload_def json_payload_def)
  show ?thesis
    unfolding split first_match_append last
      reply_content_block_eq [symmetric] reply_fallback_block_eq [symmetric]
      reply_parameters_block_eq [symmetric]
    using assms by (simp add: extractMessageContent_def Let_def split: option.splits)
qed
text \<open>\<open>String\<close> raises nothing but a \<open>TypeError\<close>, and only on an own \<open>toString\<close>.\<close>

lemma js_String_raises_TypeError:
  "js_String v = Inl e \<Longrightarrow> e = TypeError"
  "js_String_elements xs = Inl e \<Longrightarrow> e = TypeError"
  by (induction v and xs rule: js_String_js_String_elements.induct)
    (auto split: sum.splits option.splits if_splits)
lemma js_String_no_own_toString:
  "no_own_toString v \<Longrightarrow> \<exists>s. js_String v = Inr s"
  "list_all no_own_toString xs \<Longrightarrow> \<exists>ts. js_String_elements xs = Inr ts"
  by (induction v and xs rule: js_String_js_String_elements.induct) auto
lemma return_String_cases:
  "(\<exists>s. return_String v = Inr (JStr s)) \<or> return_String v = Inl TypeError"
  by (cases "js_String v") (auto simp: return_String_def dest: js_String_raises_TypeError)
lemma return_String_no_own_toString:
  "no_own_toString v \<Longrightarrow> \<exists>s. return_String v = Inr (JStr s)"
  using js_String_no_own_toString(1) [of v] by (auto simp: return_String_def)
lemma no_own_toString_field:
  "no_own_toString (JObj kvs) \<Longrightarrow> map_of kvs k = Some v \<Longrightarrow> no_own_toString v"
proof -
  assume a: "no_own_toString (JObj kvs)" and b: "map_of kvs k = Some v"
  from b have "(k, v) \<in> set kvs" by (rule map_of_SomeD)
  with a show ?thesis by (fastforce simp: list_all_iff)
qed
lemma nested_field_result:
  assumes "nested_field k m = Some r"
  shows "(\<exists>s. r = Inr (JStr s)) \<or> r = Inl TypeError"
    and "no_own_toString (content m) \<Longrightarrow> \<exists>s. r = Inr (JStr s)"
proof -
  from assms obtain kvs v where c: "content m = JObj kvs" and v: "map_of kvs k = Some v"
    and r: "r = return_String v"
    by (cases "content m") (auto simp: nested_field_def split: option.splits if_splits)
  from r return_String_cases [of v]
  show "(\<exists>s. r = Inr (JStr s)) \<or> r = Inl TypeError" by simp
  assume "no_own_toString (content m)"
  with c have "no_own_toString (JObj kvs)" by simp
  from no_own_toString_field [OF this v] have "no_own_toString v" .
  with r show "\<exists>s. r = Inr (JStr s)" by (simp add: return_String_no_own_toString)
qed
lemma parameters_field_result:
  assumes "parameters_field k m = Some r"
  shows "(\<exists>s. r = Inr (JStr s)) \<or> r = Inl TypeError"
    and "no_own_toString (parameters m) \<Longrightarrow> \<exists>s. r = Inr (JStr s)"
proof -
  from assms obtain kvs v where c: "parameters m = JObj kvs" and v: "map_of kvs k = Some v"
    and r: "r = return_String v"
    by (cases "parameters m") (auto simp: parameters_field_def split: option.splits if_splits)
  from r return_String_cases [of v]
  show "(\<exists>s. r = Inr (JStr s)) \<or> r = Inl TypeError" by simp
  assume "no_own_toString (parameters m)"
  with c have "no_own_toString (JObj kvs)" by simp
  from no_own_toString_field [OF this v] have "no_own_toString v" .
  with r show "\<exists>s. r = Inr (JStr s)" by (simp add: return_String_no_own_toString)
qed
lemma other_strategies_result:
  "fallback_pattern m = Some r \<Longrightarrow> \<exists>s. r = Inr (JStr s)"
  "fallback_verbatim m = Some r \<Longrightarrow> \<exists>s. r = Inr (JStr s)"
  "absent_payload m = Some r \<Longrightarrow> \<exists>s. r = Inr (JStr s)"
  "json_payload m = Some r \<Longrightarrow> \<exists>s. r = Inr (JStr s)"
  by (cases "fallback m";
      auto simp: fallback_pattern_def fallback_verbatim_def absent_payload_def json_payload_def
        split: if_splits)+
lemma code_reply_order_result:
  assumes "first_match code_reply_order m = Some r"
  shows "(\<exists>s. r = Inr (JStr s)) \<or> r = Inl TypeError"
    and "no_own_toString (content m) \<Longrightarrow> no_own_toString (parameters m)
           \<Longrightarrow> \<exists>s. r = Inr (JStr s)"
proof -
  from assms obtain f where f: "f \<in> set code_reply_order" and r: "f m = Some r"
    by (rule first_match_cases)
  from f consider k where "f = nested_field k" | k where "f = parameters_field k"
    | "f = fallback_pattern" | "f = fallback_verbatim" | "f = absent_payload"
    | "f = json_payload"
    by (auto simp: code_reply_order_def)
  note cases = this
  from cases show "(\<exists>s. r = Inr (JStr s)) \<or> r = Inl TypeError"
    using r by cases (auto dest: nested_field_result(1) parameters_field_result(1)
        other_strategies_result)
  assume "no_own_toString (content m)" and "no_own_toString (parameters m)"
  with cases show "\<exists>s. r = Inr (JStr s)"
    using r by cases (auto dest: nested_field_result(2) parameters_field_result(2)
        other_strategies_result)
qed
lemma extract_string_or_TypeError:
  "(\<exists>s. extractMessageContent m = Inr (JStr s)) \<or> extractMessageContent m = Inl TypeError"
proof (cases "contentTypeId m = Some ''reply''")
  case False
  then show ?thesis
    using return_String_cases [of "content m"] by (auto simp: extractMessageContent_def Let_def)
next
  case True
  from extract_reply_order [OF True]
  have "first_match code_reply_order m = Some (extractMessageContent m)" by simp
  then show ?thesis by (rule code_reply_order_result(1))
qed
lemma extract_no_own_toString:
  assumes "no_own_toString (content m)" and "no_own_toString (parameters m)"
  shows "\<exists>s. extractMessageContent m = Inr (JStr s)"
proof (cases "contentTypeId m = Some ''reply''")
  case False
  then show ?thesis
    using return_String_no_own_toString [OF assms(1)]
    by (auto simp: extractMessageContent_def Let_def)
next
  case True
  from extract_reply_order [OF True]
  have "first_match code_reply_order m = Some (extractMessageContent m)" by simp
  then show ?thesis using assms by (rule code_reply_order_result(2))
qed
section \<open>Reply detection\<close>

text \<open>
  Claim C10. \<open>isReplyToAgent\<close> returns true exactly when the content type id of the
  message is \<open>reply\<close>. The result does not depend on the agent's inbox id, nor on the
  content of the message, which is where a reply names the message it answers: a reply to
  any participant's message counts as a reply to the agent.
\<close>

theorem isReplyToAgent_only_type:
  "isReplyToAgent message agentInboxId = (contentTypeId message = Some ''reply'')
   \<and> isReplyToAgent message agentInboxId = isReplyToAgent message otherInboxId
   \<and> isReplyToAgent (message\<lparr>content := c\<rparr>) agentInboxId
       = isReplyToAgent message agentInboxId"
  by (simp add: isReplyToAgent_def)
theorem isReplyToAgent_only_type_witness:
  "isReplyToAgent
     \<lparr>contentTypeId = Some ''reply'',
      content = JObj [(''reference'', JStr ''msg-of-another-member''), (''content'', JStr ''hello'')],
      fallback = JUndefined, parameters = JObj [],
      senderInboxId = ''alice'', conversationId = ''c1''\<rparr> ''bot''
   \<and> \<not> isReplyToAgent
     \<lparr>contentTypeId = Some ''text'', content = JStr ''hello'',
      fallback = JUndefined, parameters = JObj [],
      senderInboxId = ''alice'', conversationId = ''c1''\<rparr> ''bot''"
  using isReplyToAgent_only_type [of
     "\<lparr>contentTypeId = Some ''reply'',
      content = JObj [(''reference'', JStr ''msg-of-another-member''), (''content'', JStr ''hello'')],
      fallback = JUndefined, parameters = JObj [],
      senderInboxId = ''alice'', conversationId = ''c1''\<rparr>" "''bot''"]
    isReplyToAgent_only_type [of
     "\<lparr>contentTypeId = Some ''text'', content = JStr ''hello'',
      fallback = JUndefined, parameters = JObj [],
      senderInboxId = ''alice'', conversationId = ''c1''\<rparr>" "''bot''"]
  by simp
section \<open>Content extraction\<close>

text \<open>
  Claim C2 as stated fails. \<open>extractMessageContent\<close> does raise on malformed content: when
  the field it picks, or the content of a plain message, is an object with an own property
  named \<open>toString\<close>, \<open>String\<close> raises a \<open>TypeError\<close> and nothing in the function catches it.
\<close>

theorem extractMessageContent_raises_counterexample:
  "extractMessageContent
     \<lparr>contentTypeId = Some ''reply'',
      content = JObj [(''content'', JObj [(''toString'', JNum 1)])],
      fallback = JUndefined, parameters = JObj [],
      senderInboxId = ''alice'', conversationId = ''c1''\<rparr>
     = Inl TypeError
   \<and> extractMessageContent
     \<lparr>contentTypeId = Some ''text'', content = JObj [(''toString'', JNum 1)],
      fallback = JUndefined, parameters = JObj [],
      senderInboxId = ''alice'', conversationId = ''c1''\<rparr>
     = Inl TypeError"
  by (simp add: extractMessageContent_def reply_content_block_def return_String_def)
text \<open>
  Claim C2, amended. On every envelope \<open>extractMessageContent\<close> either returns a string or
  raises the \<open>TypeError\<close> of \<open>String\<close>, and nothing else. It returns a string on every
  envelope in which no object inside the content or the parameters has an own property
  named \<open>toString\<close>, however malformed the envelope otherwise is. Where the content is
  \<open>null\<close> or \<open>undefined\<close> and neither the fallback nor the parameters field is usable, that
  string is the empty string.
\<close>

theorem extractMessageContent_total:
  "((\<exists>s. extractMessageContent m = Inr (JStr s)) \<or> extractMessageContent m = Inl TypeError)
   \<and> (no_own_toString (content m) \<and> no_own_toString (parameters m)
      \<longrightarrow> (\<exists>s. extractMessageContent m = Inr (JStr s)))
   \<and> ((content m = JNull \<or> content m = JUndefined) \<and> \<not> truthy (fallback m)
        \<and> \<not> truthy (parameters m)
      \<longrightarrow> extractMessageContent m = Inr (JStr []))"
proof (intro conjI impI)
  show "(\<exists>s. extractMessageContent m = Inr (JStr s)) \<or> extractMessageContent m = Inl TypeError"
    by (rule extract_string_or_TypeError)
next
  assume "no_own_toString (content m) \<and> no_own_toString (parameters m)"
  then show "\<exists>s. extractMessageContent m = Inr (JStr s)"
    by (auto intro: extract_no_own_toString)
next
  assume "(content m = JNull \<or> content m = JUndefined) \<and> \<not> truthy (fallback m)
        \<and> \<not> truthy (parameters m)"
  then show "extractMessageContent m = Inr (JStr [])"
    by (auto simp: extractMessageContent_def Let_def reply_content_block_def
        reply_fallback_block_def reply_parameters_block_def)
qed
theorem extractMessageContent_total_witness:
  "extractMessageContent
     \<lparr>contentTypeId = Some ''reply'', content = JNull, fallback = JUndefined,
      parameters = JUndefined, senderInboxId = ''alice'', conversationId = ''c1''\<rparr>
   = Inr (JStr [])
   \<and> (\<exists>s. extractMessageContent
     \<lparr>contentTypeId = Some ''reply'',
      content = JObj [(''reference'', JStr ''abc''), (''content'', JArr [JStr ''no'', JStr ''bet''])],
      fallback = JUndefined, parameters = JObj [],
      senderInboxId = ''alice'', conversationId = ''c1''\<rparr> = Inr (JStr s))"
  using extractMessageContent_total [of
     "\<lparr>contentTypeId = Some ''reply'', content = JNull, fallback = JUndefined,
      parameters = JUndefined, senderInboxId = ''alice'', conversationId = ''c1''\<rparr>"]
    extractMessageContent_total [of
     "\<lparr>contentTypeId = Some ''reply'',
      content = JObj [(''reference'', JStr ''abc''), (''content'', JArr [JStr ''no'', JStr ''bet''])],
      fallback = JUndefined, parameters = JObj [],
      senderInboxId = ''alice'', conversationId = ''c1''\<rparr>"]
  by simp
text \<open>
  Claim C3 as stated fails. The reply branch does not follow the six steps of the
  specification as they stand: a reply whose payload has none of the three fields and no
  fallback takes its text from \<open>parameters.content\<close> before the JSON text is tried, and a
  reply whose payload is \<open>null\<close> yields the empty string, not the JSON text \<open>null\<close>.
\<close>

theorem extractMessageContent_spec_order_counterexample:
  "extractMessageContent
     \<lparr>contentTypeId = Some ''reply'', content = JObj [(''reference'', JStr ''abc'')],
      fallback = JUndefined, parameters = JObj [(''content'', JStr ''hi'')],
      senderInboxId = ''alice'', conversationId = ''c1''\<rparr>
     = Inr (JStr ''hi'')
   \<and> first_match spec_reply_order
     \<lparr>contentTypeId = Some ''reply'', content = JObj [(''reference'', JStr ''abc'')],
      fallback = JUndefined, parameters = JObj [(''content'', JStr ''hi'')],
      senderInboxId = ''alice'', conversationId = ''c1''\<rparr>
     = Some (Inr (JStr (''{'' @ [CHR 0x22] @ ''reference'' @ [CHR 0x22] @ '':''
                        @ [CHR 0x22] @ ''abc'' @ [CHR 0x22] @ ''}'')))
   \<and> extractMessageContent
     \<lparr>contentTypeId = Some ''reply'', content = JNull,
      fallback = JUndefined, parameters = JObj [],
      senderInboxId = ''alice'', conversationId = ''c1''\<rparr>
     = Inr (JStr [])
   \<and> first_match spec_reply_order
     \<lparr>contentTypeId = Some ''reply'', content = JNull,
      fallback = JUndefined, parameters = JObj [],
      senderInboxId = ''alice'', conversationId = ''c1''\<rparr>
     = Some (Inr (JStr ''null''))"
  by (simp add: extractMessageContent_def reply_content_block_def reply_fallback_block_def
      reply_parameters_block_def spec_reply_order_def nested_field_def
      fallback_pattern_def fallback_verbatim_def json_payload_def json_quote_def
      json_escape_def return_String_def)
text \<open>
  Claim C3, amended. On every reply envelope the outcome of \<open>extractMessageContent\<close> is that
  of the first match of this order: the payload's \<open>content\<close> field, its \<open>text\<close> field, its
  \<open>message\<close> field (each matches when the field is truthy and yields \<open>String\<close> of it, a
  string or the \<open>TypeError\<close> that conversion raises), the text captured from a fallback of
  the form \<open>Replied with "TEXT" to an earlier message\<close>, the raw fallback, the \<open>content\<close>
  field of the parameters, their \<open>text\<close> field (as for the payload's fields), the empty
  string when the payload is \<open>null\<close> or \<open>undefined\<close>, and last the JSON text of the payload.
\<close>

theorem extractMessageContent_reply_order:
  "contentTypeId m = Some ''reply'' \<Longrightarrow>
     Some (extractMessageContent m) = first_match code_reply_order m"
  by (rule extract_reply_order)
theorem extractMessageContent_reply_order_witness:
  "Some (extractMessageContent
     \<lparr>contentTypeId = Some ''reply'', content = JObj [(''reference'', JStr ''abc'')],
      fallback = JStr (''Replied with '' @ [CHR 0x22] @ ''no bet'' @ [CHR 0x22]
                       @ '' to an earlier message''),
      parameters = JObj [], senderInboxId = ''alice'', conversationId = ''c1''\<rparr>)
   = first_match code_reply_order
     \<lparr>contentTypeId = Some ''reply'', content = JObj [(''reference'', JStr ''abc'')],
      fallback = JStr (''Replied with '' @ [CHR 0x22] @ ''no bet'' @ [CHR 0x22]
                       @ '' to an earlier message''),
      parameters = JObj [], senderInboxId = ''alice'', conversationId = ''c1''\<rparr>
   \<and> extractMessageContent
     \<lparr>contentTypeId = Some ''reply'', content = JObj [(''reference'', JStr ''abc'')],
      fallback = JStr (''Replied with '' @ [CHR 0x22] @ ''no bet'' @ [CHR 0x22]
                       @ '' to an earlier message''),
      parameters = JObj [], senderInboxId = ''alice'', conversationId = ''c1''\<rparr>
   = Inr (JStr ''no bet'')
   \<and> Some (extractMessageContent
     \<lparr>contentTypeId = Some ''reply'',
      content = JObj [(''content'', JObj [(''toString'', JNum 1)])],
      fallback = JUndefined, parameters = JObj [],
      senderInboxId = ''alice'', conversationId = ''c1''\<rparr>)
   = first_match code_reply_order
     \<lparr>contentTypeId = Some ''reply'',
      content = JObj [(''content'', JObj [(''toString'', JNum 1)])],
      fallback = JUndefined, parameters = JObj [],
      senderInboxId = ''alice'', conversationId = ''c1''\<rparr>
   \<and> first_match code_reply_order
     \<lparr>contentTypeId = Some ''reply'',
      content = JObj [(''content'', JObj [(''toString'', JNum 1)])],
      fallback = JUndefined, parameters = JObj [],
      senderInboxId = ''alice'', conversationId = ''c1''\<rparr>
   = Some (Inl TypeError)"
proof -
  let ?m = "\<lparr>contentTypeId = Some ''reply'', content = JObj [(''reference'', JStr ''abc'')],
      fallback = JStr (''Replied with '' @ [CHR 0x22] @ ''no bet'' @ [CHR 0x22]
                       @ '' to an earlier message''),
      parameters = JObj [], senderInboxId = ''alice'', conversationId = ''c1''\<rparr>"
  let ?n = "\<lparr>contentTypeId = Some ''reply'',
      content = JObj [(''content'', JObj [(''toString'', JNum 1)])],
      fallback = JUndefined, parameters = JObj [],
      senderInboxId = ''alice'', conversationId = ''c1''\<rparr>"
  have r: "contentTypeId ?m = Some ''reply''" and r': "contentTypeId ?n = Some ''reply''"
    by simp_all
  have v: "extractMessageContent ?m = Inr (JStr ''no bet'')"
    by (simp add: extractMessageContent_def reply_content_block_def reply_fallback_block_def
        match_here_def REPLY_PREFIX_def REPLY_SUFFIX_def)
  have v': "extractMessageContent ?n = Inl TypeError"
    by (simp add: extractMessageContent_def reply_content_block_def return_String_def)
  from extractMessageContent_reply_order [OF r] extractMessageContent_reply_order [OF r'] v v'
  show ?thesis by simp
qed

section \<open>The trigger evaluator of \<open>part_002\<close>\<close>

lemma trim_Nil [simp]: "trim [] = []"
  by (simp add: trim_def trimStart_def trimEnd_def)
lemma shouldRespond_p2_on_text:
  assumes "extractMessageContent m = Inr (JStr s)"
  shows "shouldRespondToMessage_p2 now recent m a =
     Inr (if trim s = []
          then contentTypeId m = Some ''reply'' \<and> isWithinContextWindow now recent (conversationId m)
          else isReplyToAgent m a \<or> isWithinContextWindow now recent (conversationId m)
               \<or> hasTrigger_p2 (trim (toLowerCase s)))"
  using assms by (cases "s = []") (auto simp: shouldRespondToMessage_p2_def bind_exn_def Let_def)
lemma shouldRespond_p2_raises:
  "extractMessageContent m = Inl e \<Longrightarrow> shouldRespondToMessage_p2 now recent m a = Inl e"
  by (simp add: shouldRespondToMessage_p2_def bind_exn_def)
lemma isWithinContextWindow_iff:
  "isWithinContextWindow now recent cid
     \<longleftrightarrow> (\<exists>r. recent cid = Some r \<and> now - timestamp r \<le> 5 * 60 * 1000)"
  by (simp add: isWithinContextWindow_def CONTEXT_WINDOW_MS_def Let_def split: option.splits)
text \<open>
  Claim C4 as stated fails. A reply whose extracted text is empty is not admitted
  unconditionally: with no answer of the agent on record for the conversation, the verdict
  is \<open>false\<close>.
\<close>

theorem shouldRespond_empty_reply_counterexample:
  "isReplyToAgent
     \<lparr>contentTypeId = Some ''reply'', content = JNull, fallback = JUndefined,
      parameters = JObj [], senderInboxId = ''alice'', conversationId = ''c1''\<rparr> ''bot''
   \<and> shouldRespondToMessage_p2 1000 Map.empty
     \<lparr>contentTypeId = Some ''reply'', content = JNull, fallback = JUndefined,
      parameters = JObj [], senderInboxId = ''alice'', conversationId = ''c1''\<rparr> ''bot''
     = Inr False"
  by (simp add: isReplyToAgent_def shouldRespondToMessage_p2_def bind_exn_def
      extractMessageContent_def reply_content_block_def reply_fallback_block_def
      reply_parameters_block_def isWithinContextWindow_def)
text \<open>
  Claim C4, amended. For every reply envelope, content extraction returns a string or
  raises a \<open>TypeError\<close>. When it returns a text that is not blank,
  \<open>shouldRespondToMessage\<close> returns true. When the text is blank (empty, or nothing but the
  white space that \<open>trim\<close> strips), it returns the context-window check: true exactly when
  \<open>recentAgentMessages\<close> holds, for the conversation, the record of a tracked answer whose
  timestamp is at most \<open>CONTEXT_WINDOW_MS\<close> (five minutes) before now. When extraction
  raises, \<open>shouldRespondToMessage\<close> raises the same exception.
\<close>

theorem shouldRespond_reply:
  assumes "isReplyToAgent m agentInboxId"
  shows "((\<exists>s. extractMessageContent m = Inr (JStr s)) \<or> extractMessageContent m = Inl TypeError)
     \<and> (\<forall>s. extractMessageContent m = Inr (JStr s) \<longrightarrow>
          shouldRespondToMessage_p2 now recentAgentMessages m agentInboxId =
            Inr (if trim s = []
                 then \<exists>r. recentAgentMessages (conversationId m) = Some r
                          \<and> now - timestamp r \<le> 5 * 60 * 1000
                 else True))
     \<and> (\<forall>e. extractMessageContent m = Inl e \<longrightarrow>
          shouldRespondToMessage_p2 now recentAgentMessages m agentInboxId = Inl e)"
proof (intro conjI allI impI)
  show "(\<exists>s. extractMessageContent m = Inr (JStr s)) \<or> extractMessageContent m = Inl TypeError"
    by (rule extract_string_or_TypeError)
next
  fix s assume s: "extractMessageContent m = Inr (JStr s)"
  from assms have r: "contentTypeId m = Some ''reply''"
    by (simp add: isReplyToAgent_def split: if_splits)
  from r assms show "shouldRespondToMessage_p2 now recentAgentMessages m agentInboxId =
            Inr (if trim s = []
                 then \<exists>r. recentAgentMessages (conversationId m) = Some r
                          \<and> now - timestamp r \<le> 5 * 60 * 1000
                 else True)"
    by (simp add: shouldRespond_p2_on_text [OF s] isWithinContextWindow_iff)
next
  fix e assume "extractMessageContent m = Inl e"
  then show "shouldRespondToMessage_p2 now recentAgentMessages m agentInboxId = Inl e"
    by (rule shouldRespond_p2_raises)
qed
theorem shouldRespond_reply_witness:
  "shouldRespondToMessage_p2 1000 Map.empty
     \<lparr>contentTypeId = Some ''reply'', content = JObj [(''content'', JStr ''no bet'')],
      fallback = JUndefined, parameters = JObj [],
      senderInboxId = ''alice'', conversationId = ''c1''\<rparr> ''bot'' = Inr True
   \<and> shouldRespondToMessage_p2 1000 [''c1'' \<mapsto> \<lparr>timestamp = 400, messageId = ''m7''\<rparr>]
     \<lparr>contentTypeId = Some ''reply'', content = JObj [(''content'', JStr [CHR 0xC2, CHR 0xA0])],
      fallback = JUndefined, parameters = JObj [],
      senderInboxId = ''alice'', conversationId = ''c1''\<rparr> ''bot'' = Inr True
   \<and> shouldRespondToMessage_p2 1000 Map.empty
     \<lparr>contentTypeId = Some ''reply'', content = JObj [(''content'', JStr [CHR 0xC2, CHR 0xA0])],
      fallback = JUndefined, parameters = JObj [],
      senderInboxId = ''alice'', conversationId = ''c1''\<rparr> ''bot'' = Inr False
   \<and> shouldRespondToMessage_p2 1000 Map.empty
     \<lparr>contentTypeId = Some ''reply'',
      content = JObj [(''content'', JObj [(''toString'', JNum 1)])],
      fallback = JUndefined, parameters = JObj [],
      senderInboxId = ''alice'', conversationId = ''c1''\<rparr> ''bot'' = Inl TypeError"
proof -
  let ?m1 = "\<lparr>contentTypeId = Some ''reply'', content = JObj [(''content'', JStr ''no bet'')],
      fallback = JUndefined, parameters = JObj [],
      senderInboxId = ''alice'', conversationId = ''c1''\<rparr>"
  let ?m2 = "\<lparr>contentTypeId = Some ''reply'',
      content = JObj [(''content'', JStr [CHR 0xC2, CHR 0xA0])],
      fallback = JUndefined, parameters = JObj [],
      senderInboxId = ''alice'', conversationId = ''c1''\<rparr>"
  let ?m3 = "\<lparr>contentTypeId = Some ''reply'',
      content = JObj [(''content'', JObj [(''toString'', JNum 1)])],
      fallback = JUndefined, parameters = JObj [],
      senderInboxId = ''alice'', conversationId = ''c1''\<rparr>"
  let ?R = "[''c1'' \<mapsto> \<lparr>timestamp = 400, messageId = ''m7''\<rparr>]"
  have r1: "isReplyToAgent ?m1 ''bot''" and r2: "isReplyToAgent ?m2 ''bot''"
    and r3: "isReplyToAgent ?m3 ''bot''"
    by (simp_all add: isReplyToAgent_def)
  have e1: "extractMessageContent ?m1 = Inr (JStr ''no bet'')"
    and e2: "extractMessageContent ?m2 = Inr (JStr [CHR 0xC2, CHR 0xA0])"
    and e3: "extractMessageContent ?m3 = Inl TypeError"
    by (simp_all add: extractMessageContent_def reply_content_block_def return_String_def)
  have t1: "trim ''no bet'' \<noteq> []" and t2: "trim [CHR 0xC2, CHR 0xA0] = []"
    by (simp_all add: trim_def trimStart_def trimEnd_def WHITE_SPACE_def)
  from shouldRespond_reply [OF r1, where now = 1000 and recentAgentMessages = Map.empty] e1 t1
  have a: "shouldRespondToMessage_p2 1000 Map.empty ?m1 ''bot'' = Inr True" by simp
  from shouldRespond_reply [OF r2, where now = 1000 and recentAgentMessages = ?R] e2 t2
  have b: "shouldRespondToMessage_p2 1000 ?R ?m2 ''bot'' = Inr True" by simp
  from shouldRespond_reply [OF r2, where now = 1000 and recentAgentMessages = Map.empty] e2 t2
  have c: "shouldRespondToMessage_p2 1000 Map.empty ?m2 ''bot'' = Inr False" by simp
  from shouldRespond_reply [OF r3, where now = 1000 and recentAgentMessages = Map.empty] e3
  have d: "shouldRespondToMessage_p2 1000 Map.empty ?m3 ''bot'' = Inl TypeError" by simp
  from a b c d show ?thesis by blast
qed
text \<open>
  Claim C6 as stated fails, in two ways. A plain message whose text is a single space is not
  empty and holds no trigger, yet it is dropped inside the context window: the emptiness
  check is made on the trimmed text. And a message the agent sent opens no window unless it
  was tracked: the handler tracks the answers it sends and nothing else, so after it has
  sent the help hint the record is still empty and a plain message a minute later is
  dropped.
\<close>

theorem context_window_counterexample:
  "extractMessageContent
     \<lparr>contentTypeId = Some ''text'', content = JStr '' '', fallback = JUndefined,
      parameters = JObj [], senderInboxId = ''alice'', conversationId = ''c1''\<rparr>
     = Inr (JStr '' '')
   \<and> shouldRespondToMessage_p2 60000 [''c1'' \<mapsto> \<lparr>timestamp = 0, messageId = ''m7''\<rparr>]
     \<lparr>contentTypeId = Some ''text'', content = JStr '' '', fallback = JUndefined,
      parameters = JObj [], senderInboxId = ''alice'', conversationId = ''c1''\<rparr> ''bot''
     = Inr False
   \<and> handleMessage_p2
     \<lparr>inboxId = ''bot'',
      getConversationById = (\<lambda>cid. Inr (Some \<lparr>conv_id = cid\<rparr>)),
      inboxStateFromInboxIds = (\<lambda>sender. Inr JNull),
      initializeAgent = (\<lambda>userId. Inr ()),
      agentStream = (\<lambda>thread text. Inr [''Welcome to Squabble'']),
      send = (\<lambda>k cid text. Inr ''m1'')\<rparr>
     0 1
     \<lparr>contentTypeId = Some ''text'', content = JStr ''/help'', fallback = JUndefined,
      parameters = JObj [], senderInboxId = ''alice'', conversationId = ''c1''\<rparr>
     Map.empty
     = \<lparr>completion = Returned, final = Map.empty,
        calls = [GetConversation ''c1'', Send ''c1'' HELP_HINT_p2]\<rparr>
   \<and> shouldRespondToMessage_p2 60000 Map.empty
     \<lparr>contentTypeId = Some ''text'', content = JStr ''no bet'', fallback = JUndefined,
      parameters = JObj [], senderInboxId = ''alice'', conversationId = ''c1''\<rparr> ''bot''
     = Inr False"
proof -
  let ?cl = "\<lparr>inboxId = ''bot'',
      getConversationById = (\<lambda>cid. Inr (Some \<lparr>conv_id = cid\<rparr>)),
      inboxStateFromInboxIds = (\<lambda>sender. Inr JNull),
      initializeAgent = (\<lambda>userId. Inr ()),
      agentStream = (\<lambda>thread text. Inr [''Welcome to Squabble'']),
      send = (\<lambda>k cid text. Inr ''m1'')\<rparr>"
  let ?blank = "\<lparr>contentTypeId = Some ''text'', content = JStr '' '', fallback = JUndefined,
      parameters = JObj [], senderInboxId = ''alice'', conversationId = ''c1''\<rparr>"
  let ?hint_request = "\<lparr>contentTypeId = Some ''text'', content = JStr ''/help'', fallback = JUndefined,
      parameters = JObj [], senderInboxId = ''alice'', conversationId = ''c1''\<rparr>"
  let ?nobet = "\<lparr>contentTypeId = Some ''text'', content = JStr ''no bet'', fallback = JUndefined,
      parameters = JObj [], senderInboxId = ''alice'', conversationId = ''c1''\<rparr>"
  have e1: "extractMessageContent ?blank = Inr (JStr '' '')"
    and e2: "extractMessageContent ?hint_request = Inr (JStr ''/help'')"
    and e3: "extractMessageContent ?nobet = Inr (JStr ''no bet'')"
    by (simp_all add: extractMessageContent_def return_String_def)
  have t1: "trim '' '' = []" and t2: "trim ''/help'' = ''/help''"
    and t3: "trim ''no bet'' = ''no bet''"
    by (simp_all add: trim_def trimStart_def trimEnd_def WHITE_SPACE_def)
  have l2: "toLowerCase ''/help'' = ''/help''" and l3: "toLowerCase ''no bet'' = ''no bet''"
    by (simp_all add: lower_char_def)
  have a: "shouldRespondToMessage_p2 60000 [''c1'' \<mapsto> \<lparr>timestamp = 0, messageId = ''m7''\<rparr>]
             ?blank ''bot'' = Inr False"
    by (simp add: shouldRespond_p2_on_text [OF e1] t1)
  have v2: "shouldRespondToMessage_p2 0 Map.empty ?hint_request ''bot'' = Inr False"
    by (simp add: shouldRespond_p2_on_text [OF e2] t2 l2 isReplyToAgent_def
        isWithinContextWindow_def hasTrigger_p2_def SQUABBLE_TRIGGERS_p2_def lower_char_def)
  have hint: "shouldSendHelpHint_p2 ''/help''"
    by (simp add: shouldSendHelpHint_p2_def t2 l2 SQUABBLE_TRIGGERS_p2_def lower_char_def)
  have other: "toLowerCase ''alice'' \<noteq> toLowerCase ''bot''"
    by (simp add: lower_char_def)
  have b: "handleMessage_p2 ?cl 0 1 ?hint_request Map.empty
     = \<lparr>completion = Returned, final = Map.empty,
        calls = [GetConversation ''c1'', Send ''c1'' HELP_HINT_p2]\<rparr>"
    using other
    by (simp add: handleMessage_p2_def handleMessage_try_p2_def Let_def e2 v2 hint
        catch_block_def)
  have c: "shouldRespondToMessage_p2 60000 Map.empty ?nobet ''bot'' = Inr False"
    by (simp add: shouldRespond_p2_on_text [OF e3] t3 l3 isReplyToAgent_def
        isWithinContextWindow_def hasTrigger_p2_def SQUABBLE_TRIGGERS_p2_def lower_char_def)
  from e1 a b c show ?thesis by blast
qed
text \<open>
  Claim C6, amended. In a conversation for which \<open>recentAgentMessages\<close> holds the record of
  a tracked answer of the agent with timestamp \<open>T0\<close> (the handler records the answers it
  sends; the help hint, the apology, the welcome message and the messages of the HTTP
  endpoint are not recorded), a plain (non-reply) message whose text is not blank (not
  empty after \<open>trim\<close>) and holds no trigger keyword yields \<open>true\<close> when it arrives at most
  \<open>CONTEXT_WINDOW_MS\<close> (five minutes) after \<open>T0\<close>, and \<open>false\<close> when it arrives later.
\<close>

theorem context_window_verdict:
  assumes "contentTypeId m \<noteq> Some ''reply''"
    and "extractMessageContent m = Inr (JStr s)"
    and "trim s \<noteq> []"
    and "\<not> hasTrigger_p2 (trim (toLowerCase s))"
    and "recentAgentMessages (conversationId m) = Some \<lparr>timestamp = T0, messageId = mid\<rparr>"
  shows "shouldRespondToMessage_p2 now recentAgentMessages m agentInboxId
           = Inr (now - T0 \<le> 5 * 60 * 1000)"
  using assms
  by (simp add: shouldRespond_p2_on_text [OF assms(2)] isReplyToAgent_def
      isWithinContextWindow_def CONTEXT_WINDOW_MS_def)
theorem context_window_verdict_witness:
  "shouldRespondToMessage_p2 60000 [''c1'' \<mapsto> \<lparr>timestamp = 0, messageId = ''m7''\<rparr>]
     \<lparr>contentTypeId = Some ''text'', content = JStr ''no bet'', fallback = JUndefined,
      parameters = JObj [], senderInboxId = ''alice'', conversationId = ''c1''\<rparr> ''bot''
     = Inr True
   \<and> shouldRespondToMessage_p2 400000 [''c1'' \<mapsto> \<lparr>timestamp = 0, messageId = ''m7''\<rparr>]
     \<lparr>contentTypeId = Some ''text'', content = JStr ''no bet'', fallback = JUndefined,
      parameters = JObj [], senderInboxId = ''alice'', conversationId = ''c1''\<rparr> ''bot''
     = Inr False"
proof -
  let ?m = "\<lparr>contentTypeId = Some ''text'', content = JStr ''no bet'', fallback = JUndefined,
      parameters = JObj [], senderInboxId = ''alice'', conversationId = ''c1''\<rparr>"
  let ?r = "[''c1'' \<mapsto> \<lparr>timestamp = 0, messageId = ''m7''\<rparr>]"
  have a1: "contentTypeId ?m \<noteq> Some ''reply''" by simp
  have a2: "extractMessageContent ?m = Inr (JStr ''no bet'')"
    by (simp add: extractMessageContent_def return_String_def)
  have t: "trim ''no bet'' = ''no bet''"
    by (simp add: trim_def trimStart_def trimEnd_def WHITE_SPACE_def)
  have l: "toLowerCase ''no bet'' = ''no bet''" by (simp add: lower_char_def)
  have a3: "trim ''no bet'' \<noteq> []" by (simp add: t)
  have a4: "\<not> hasTrigger_p2 (trim (toLowerCase ''no bet''))"
    by (simp add: l t hasTrigger_p2_def SQUABBLE_TRIGGERS_p2_def lower_char_def)
  have a5: "?r (conversationId ?m) = Some \<lparr>timestamp = 0, messageId = ''m7''\<rparr>" by simp
  from context_window_verdict [where recentAgentMessages = "?r" and now = 60000
           and agentInboxId = "''bot''", OF a1 a2 a3 a4 a5]
       context_window_verdict [where recentAgentMessages = "?r" and now = 400000
           and agentInboxId = "''bot''", OF a1 a2 a3 a4 a5]
  show ?thesis by simp
qed
section \<open>The conversation state store\<close>

text \<open>
  Claim C1. \<open>getConversationState\<close> returns the fresh default state (not waiting, empty
  command, count 0, last update \<open>now\<close>) and stores it when the stored state is absent, or
  \<open>now - lastUpdate\<close> exceeds \<open>STATE_TIMEOUT\<close> (60 s), or \<open>messageCount\<close> has reached
  \<open>MAX_CONTEXT_MESSAGES\<close> (5); in every other case it returns the stored state and leaves
  the store as it is. Either way the state the caller sees is not expired, and it is the
  state the store then holds.
\<close>

theorem getConversationState_reset:
  "(case getConversationState now conversationStates cid of
      (r, conversationStates') \<Rightarrow>
        ((conversationStates cid = None
          \<or> (\<exists>st. conversationStates cid = Some st
                \<and> (now - lastUpdate st > 60 * 1000 \<or> messageCount st \<ge> 5)))
         \<longrightarrow> r = \<lparr>isWaitingForResponse = False, lastCommand = [], messageCount = 0,
                   lastUpdate = now\<rparr>
             \<and> conversationStates' = conversationStates(cid \<mapsto> r))
      \<and> (\<not> (conversationStates cid = None
          \<or> (\<exists>st. conversationStates cid = Some st
                \<and> (now - lastUpdate st > 60 * 1000 \<or> messageCount st \<ge> 5)))
         \<longrightarrow> conversationStates cid = Some r \<and> conversationStates' = conversationStates)
      \<and> now - lastUpdate r \<le> 60 * 1000 \<and> messageCount r < 5
      \<and> conversationStates' cid = Some r)"
  by (cases "conversationStates cid")
    (auto simp: getConversationState_def newState_def STATE_TIMEOUT_def
      MAX_CONTEXT_MESSAGES_def Let_def)
theorem getConversationState_reset_witness:
  "fst (getConversationState 100000
     [''c1'' \<mapsto> \<lparr>isWaitingForResponse = True, lastCommand = ''/squabble start'',
                 messageCount = 2, lastUpdate = 30000\<rparr>] ''c1'')
   = \<lparr>isWaitingForResponse = False, lastCommand = [], messageCount = 0, lastUpdate = 100000\<rparr>
   \<and> fst (getConversationState 80000
     [''c1'' \<mapsto> \<lparr>isWaitingForResponse = True, lastCommand = ''/squabble start'',
                 messageCount = 2, lastUpdate = 30000\<rparr>] ''c1'')
   = \<lparr>isWaitingForResponse = True, lastCommand = ''/squabble start'',
                 messageCount = 2, lastUpdate = 30000\<rparr>"
proof -
  let ?st = "\<lparr>isWaitingForResponse = True, lastCommand = ''/squabble start'',
                 messageCount = 2, lastUpdate = 30000\<rparr>"
  let ?S = "[''c1'' \<mapsto> ?st]"
  have expired: "?S ''c1'' = None
      \<or> (\<exists>st. ?S ''c1'' = Some st \<and> (100000 - lastUpdate st > 60 * 1000 \<or> messageCount st \<ge> 5))"
    by simp
  have live: "\<not> (?S ''c1'' = None
      \<or> (\<exists>st. ?S ''c1'' = Some st \<and> (80000 - lastUpdate st > 60 * 1000 \<or> messageCount st \<ge> 5)))"
    by simp
  obtain r1 S1 where g1: "getConversationState 100000 ?S ''c1'' = (r1, S1)"
    by (cases "getConversationState 100000 ?S ''c1''")
  obtain r2 S2 where g2: "getConversationState 80000 ?S ''c1'' = (r2, S2)"
    by (cases "getConversationState 80000 ?S ''c1''")
  from getConversationState_reset [where now = 100000 and cid = "''c1''"
      and conversationStates = ?S] expired
  have "r1 = \<lparr>isWaitingForResponse = False, lastCommand = [], messageCount = 0,
               lastUpdate = 100000\<rparr>"
    unfolding g1 by blast
  moreover
  from getConversationState_reset [where now = 80000 and cid = "''c1''"
      and conversationStates = ?S] live
  have "?S ''c1'' = Some r2"
    unfolding g2 by blast
  ultimately show ?thesis
    unfolding g1 g2 by simp
qed

section \<open>The handlers\<close>

text \<open>
  Claim C7. When the sender's identifier equals the agent's own, compared in lower case,
  the handler returns at once: it makes no call at all (no conversation lookup, no agent
  run, no send) and leaves the store untouched, in \<open>part_002\<close> and in \<open>part_001\<close>,
  whatever the collaborators would have answered. In \<open>part_001\<close> a run of the trigger
  evaluator on a conversation with no stored state would have written one.
\<close>

theorem handleMessage_skips_own_messages:
  assumes "toLowerCase (senderInboxId message) = toLowerCase (inboxId cl)"
  shows "handleMessage_p2 cl now later message recentAgentMessages
           = \<lparr>completion = Returned, final = recentAgentMessages, calls = []\<rparr>
       \<and> handleMessage_p1 cl now later message conversationStates
           = \<lparr>completion = Returned, final = conversationStates, calls = []\<rparr>"
  using assms
  by (simp add: handleMessage_p2_def handleMessage_try_p2_def handleMessage_p1_def
      handleMessage_try_p1_def catch_block_def Let_def)
theorem handleMessage_skips_own_messages_witness:
  "handleMessage_p2
     \<lparr>inboxId = ''0xabc'',
      getConversationById = (\<lambda>cid. Inr (Some \<lparr>conv_id = cid\<rparr>)),
      inboxStateFromInboxIds = (\<lambda>sender. Inr JNull),
      initializeAgent = (\<lambda>userId. Inr ()),
      agentStream = (\<lambda>thread text. Inr [''Welcome to Squabble'']),
      send = (\<lambda>k cid text. Inr ''m1'')\<rparr>
     1000 2000
     \<lparr>contentTypeId = Some ''text'', content = JStr ''@squabble help'', fallback = JUndefined,
      parameters = JObj [], senderInboxId = ''0xABC'', conversationId = ''c1''\<rparr>
     Map.empty
   = \<lparr>completion = Returned, final = Map.empty, calls = []\<rparr>
   \<and> handleMessage_p1
     \<lparr>inboxId = ''0xabc'',
      getConversationById = (\<lambda>cid. Inr (Some \<lparr>conv_id = cid\<rparr>)),
      inboxStateFromInboxIds = (\<lambda>sender. Inr JNull),
      initializeAgent = (\<lambda>userId. Inr ()),
      agentStream = (\<lambda>thread text. Inr [''Welcome to Squabble'']),
      send = (\<lambda>k cid text. Inr ''m1'')\<rparr>
     1000 2000
     \<lparr>contentTypeId = Some ''text'', content = JStr ''@squabble help'', fallback = JUndefined,
      parameters = JObj [], senderInboxId = ''0xABC'', conversationId = ''c1''\<rparr>
     Map.empty
   = \<lparr>completion = Returned, final = Map.empty, calls = []\<rparr>"
proof -
  let ?cl = "\<lparr>inboxId = ''0xabc'',
      getConversationById = (\<lambda>cid. Inr (Some \<lparr>conv_id = cid\<rparr>)),
      inboxStateFromInboxIds = (\<lambda>sender. Inr JNull),
      initializeAgent = (\<lambda>userId. Inr ()),
      agentStream = (\<lambda>thread text. Inr [''Welcome to Squabble'']),
      send = (\<lambda>k cid text. Inr ''m1'')\<rparr>"
  let ?m = "\<lparr>contentTypeId = Some ''text'', content = JStr ''@squabble help'',
      fallback = JUndefined, parameters = JObj [], senderInboxId = ''0xABC'',
      conversationId = ''c1''\<rparr>"
  have own: "toLowerCase (senderInboxId ?m) = toLowerCase (inboxId ?cl)"
    by (simp add: lower_char_def)
  from handleMessage_skips_own_messages [OF own] show ?thesis by blast
qed
text \<open>
  Claim C9. For an admitted message, with the conversation resolved and the agent
  initialised, the handler of \<open>part_002\<close> looks at the text the agent returned: when it
  trims to \<open>TOOL_HANDLED\<close>, nothing is sent and the record of the agent's last message
  stays as it was; otherwise the text is sent and, once the send has returned the id of the
  sent message, the record for the conversation holds that id and the current time.
\<close>

theorem handleMessage_p2_sentinel:
  assumes "toLowerCase (senderInboxId message) \<noteq> toLowerCase (inboxId cl)"
    and "getConversationById cl (conversationId message) = Inr (Some conv)"
    and "shouldRespondToMessage_p2 now recentAgentMessages message (inboxId cl) = Inr True"
    and "inboxStateFromInboxIds cl (senderInboxId message) = Inr senderInboxState"
    and "initializeAgent cl (senderInboxId message) = Inr agent"
    and "extractMessageContent message = Inr messageContent"
    and "response = processMessage cl (senderInboxId message) messageContent"
  shows "(trim response = ''TOOL_HANDLED'' \<longrightarrow>
           handleMessage_p2 cl now later message recentAgentMessages
             = \<lparr>completion = Returned, final = recentAgentMessages,
                calls = [GetConversation (conversationId message),
                         InboxState (senderInboxId message),
                         InitializeAgent (senderInboxId message),
                         AgentStream (senderInboxId message) messageContent]\<rparr>)
       \<and> (trim response \<noteq> ''TOOL_HANDLED'' \<longrightarrow>
           (\<forall>sentMessageId. send cl 0 (conv_id conv) response = Inr sentMessageId \<longrightarrow>
             handleMessage_p2 cl now later message recentAgentMessages
               = \<lparr>completion = Returned,
                  final = recentAgentMessages(conv_id conv \<mapsto>
                            \<lparr>timestamp = later, messageId = sentMessageId\<rparr>),
                  calls = [GetConversation (conversationId message),
                           InboxState (senderInboxId message),
                           InitializeAgent (senderInboxId message),
                           AgentStream (senderInboxId message) messageContent,
                           Send (conv_id conv) response]\<rparr>))"
  using assms
  by (simp add: handleMessage_p2_def handleMessage_try_p2_def catch_block_def Let_def
      trackAgentMessage_def)
theorem handleMessage_p2_sentinel_witness:
  "handleMessage_p2
     \<lparr>inboxId = ''bot'',
      getConversationById = (\<lambda>cid. Inr (Some \<lparr>conv_id = cid\<rparr>)),
      inboxStateFromInboxIds = (\<lambda>sender. Inr JNull),
      initializeAgent = (\<lambda>userId. Inr ()),
      agentStream = (\<lambda>thread text. Inr [''TOOL_HANDLED'' @ [CHR 0xC2, CHR 0xA0]]),
      send = (\<lambda>k cid text. Inr ''m1'')\<rparr>
     1000 2000
     \<lparr>contentTypeId = Some ''text'', content = JStr ''@squabble start'', fallback = JUndefined,
      parameters = JObj [], senderInboxId = ''alice'', conversationId = ''c1''\<rparr>
     Map.empty
   = \<lparr>completion = Returned, final = Map.empty,
      calls = [GetConversation ''c1'', InboxState ''alice'', InitializeAgent ''alice'',
               AgentStream ''alice'' (JStr ''@squabble start'')]\<rparr>
   \<and> handleMessage_p2
     \<lparr>inboxId = ''bot'',
      getConversationById = (\<lambda>cid. Inr (Some \<lparr>conv_id = cid\<rparr>)),
      inboxStateFromInboxIds = (\<lambda>sender. Inr JNull),
      initializeAgent = (\<lambda>userId. Inr ()),
      agentStream = (\<lambda>thread text. Inr [''How much do you bet?'']),
      send = (\<lambda>k cid text. Inr ''m1'')\<rparr>
     1000 2000
     \<lparr>contentTypeId = Some ''text'', content = JStr ''@squabble start'', fallback = JUndefined,
      parameters = JObj [], senderInboxId = ''alice'', conversationId = ''c1''\<rparr>
     Map.empty
   = \<lparr>completion = Returned,
      final = [''c1'' \<mapsto> \<lparr>timestamp = 2000, messageId = ''m1''\<rparr>],
      calls = [GetConversation ''c1'', InboxState ''alice'', InitializeAgent ''alice'',
               AgentStream ''alice'' (JStr ''@squabble start''),
               Send ''c1'' ''How much do you bet?'']\<rparr>"
proof -
  let ?cl1 = "\<lparr>inboxId = ''bot'',
      getConversationById = (\<lambda>cid. Inr (Some \<lparr>conv_id = cid\<rparr>)),
      inboxStateFromInboxIds = (\<lambda>sender. Inr JNull),
      initializeAgent = (\<lambda>userId. Inr ()),
      agentStream = (\<lambda>thread text. Inr [''TOOL_HANDLED'' @ [CHR 0xC2, CHR 0xA0]]),
      send = (\<lambda>k cid text. Inr ''m1'')\<rparr>"
  let ?cl2 = "\<lparr>inboxId = ''bot'',
      getConversationById = (\<lambda>cid. Inr (Some \<lparr>conv_id = cid\<rparr>)),
      inboxStateFromInboxIds = (\<lambda>sender. Inr JNull),
      initializeAgent = (\<lambda>userId. Inr ()),
      agentStream = (\<lambda>thread text. Inr [''How much do you bet?'']),
      send = (\<lambda>k cid text. Inr ''m1'')\<rparr>"
  let ?m = "\<lparr>contentTypeId = Some ''text'', content = JStr ''@squabble start'',
      fallback = JUndefined, parameters = JObj [], senderInboxId = ''alice'',
      conversationId = ''c1''\<rparr>"
  have other1: "toLowerCase (senderInboxId ?m) \<noteq> toLowerCase (inboxId ?cl1)"
    and other2: "toLowerCase (senderInboxId ?m) \<noteq> toLowerCase (inboxId ?cl2)"
    by (simp_all add: lower_char_def)
  have conv1: "getConversationById ?cl1 (conversationId ?m) = Inr (Some \<lparr>conv_id = ''c1''\<rparr>)"
    and conv2: "getConversationById ?cl2 (conversationId ?m) = Inr (Some \<lparr>conv_id = ''c1''\<rparr>)"
    by simp_all
  have mc: "extractMessageContent ?m = Inr (JStr ''@squabble start'')"
    by (simp add: extractMessageContent_def return_String_def)
  have t: "trim ''@squabble start'' = ''@squabble start''"
    by (simp add: trim_def trimStart_def trimEnd_def WHITE_SPACE_def)
  have l: "toLowerCase ''@squabble start'' = ''@squabble start''"
    by (simp add: lower_char_def)
  have admitted: "shouldRespondToMessage_p2 1000 Map.empty ?m ''bot'' = Inr True"
    by (simp add: shouldRespond_p2_on_text [OF mc] t l isReplyToAgent_def
        isWithinContextWindow_def hasTrigger_p2_def SQUABBLE_TRIGGERS_p2_def lower_char_def)
  have r1: "trim (processMessage ?cl1 ''alice'' (JStr ''@squabble start'')) = ''TOOL_HANDLED''"
    by (simp add: processMessage_def trim_def trimStart_def trimEnd_def WHITE_SPACE_def)
  have r2: "processMessage ?cl2 ''alice'' (JStr ''@squabble start'') = ''How much do you bet?''"
    by (simp add: processMessage_def trim_def trimStart_def trimEnd_def WHITE_SPACE_def)
  have r2': "trim ''How much do you bet?'' \<noteq> ''TOOL_HANDLED''"
    by (simp add: trim_def trimStart_def trimEnd_def WHITE_SPACE_def)
  have a: "handleMessage_p2 ?cl1 1000 2000 ?m Map.empty
     = \<lparr>completion = Returned, final = Map.empty,
        calls = [GetConversation ''c1'', InboxState ''alice'', InitializeAgent ''alice'',
                 AgentStream ''alice'' (JStr ''@squabble start'')]\<rparr>"
    using handleMessage_p2_sentinel [where cl = ?cl1 and message = ?m and now = 1000
        and later = 2000 and recentAgentMessages = Map.empty
        and conv = "\<lparr>conv_id = ''c1''\<rparr>" and senderInboxState = JNull and agent = "()"
        and messageContent = "JStr ''@squabble start''"
        and response = "processMessage ?cl1 ''alice'' (JStr ''@squabble start'')",
        OF other1 conv1 _ _ _ mc] admitted r1
    by simp
  have b: "handleMessage_p2 ?cl2 1000 2000 ?m Map.empty
     = \<lparr>completion = Returned,
        final = [''c1'' \<mapsto> \<lparr>timestamp = 2000, messageId = ''m1''\<rparr>],
        calls = [GetConversation ''c1'', InboxState ''alice'', InitializeAgent ''alice'',
                 AgentStream ''alice'' (JStr ''@squabble start''),
                 Send ''c1'' ''How much do you bet?'']\<rparr>"
    using handleMessage_p2_sentinel [where cl = ?cl2 and message = ?m and now = 1000
        and later = 2000 and recentAgentMessages = Map.empty
        and conv = "\<lparr>conv_id = ''c1''\<rparr>" and senderInboxState = JNull and agent = "()"
        and messageContent = "JStr ''@squabble start''"
        and response = "processMessage ?cl2 ''alice'' (JStr ''@squabble start'')",
        OF other2 conv2 _ _ _ mc] admitted r2 r2'
    by simp
  from a b show ?thesis by blast
qed
text \<open>
  The \<open>catch\<close> block and the loop, for any \<open>try\<close> block and any handler: with no
  conversation resolved nothing is sent; with one, the apology is sent; and when that send
  throws, the handler rejects and the loop stops at this message.
\<close>

lemma catch_block_no_conversation:
  "thrown a = Some err \<Longrightarrow> conversation a = None \<Longrightarrow>
     catch_block cl a = \<lparr>completion = Returned, final = store a, calls = trace a\<rparr>"
  by (simp add: catch_block_def)
lemma catch_block_apology_sent:
  "thrown a = Some err \<Longrightarrow> conversation a = Some conv \<Longrightarrow>
   send cl (sends_made (trace a)) (conv_id conv) APOLOGY = Inr mid \<Longrightarrow>
     catch_block cl a = \<lparr>completion = Returned, final = store a,
                          calls = trace a @ [Send (conv_id conv) APOLOGY]\<rparr>"
  by (simp add: catch_block_def)
lemma catch_block_apology_fails:
  "thrown a = Some err \<Longrightarrow> conversation a = Some conv \<Longrightarrow>
   send cl (sends_made (trace a)) (conv_id conv) APOLOGY = Inl err' \<Longrightarrow>
     completion (catch_block cl a) = Rejected err'"
  by (simp add: catch_block_def)
lemma message_loop_stops:
  "incoming d = Some message \<Longrightarrow>
   completion (handler (answering d) (clock_now d) (clock_later d) message s) = Rejected err \<Longrightarrow>
     message_loop handler (d # ds) s
       = handler (answering d) (clock_now d) (clock_later d) message s"
  by (simp add: Let_def)
text \<open>
  Claim C8. An error thrown in the \<open>try\<close> block is caught, and the apology is sent when a
  conversation had been resolved. The apology itself is sent from the \<open>catch\<close> block and
  awaited there with nothing around it, and the loop of \<open>startMessageListener\<close> awaits the
  handler outside any \<open>try\<close>. So when the transport refuses every send, the failed send
  of the answer is caught, the apology send fails in turn, the handler rejects with that
  error, and the loop ends before the next message is looked at. The run below is that
  case: the second delivery, to which every collaborator would have answered, is never
  handled.
\<close>

theorem handleMessage_apology_send_escapes:
  "handleMessage_p2
     \<lparr>inboxId = ''bot'',
      getConversationById = (\<lambda>cid. Inr (Some \<lparr>conv_id = cid\<rparr>)),
      inboxStateFromInboxIds = (\<lambda>sender. Inr JNull),
      initializeAgent = (\<lambda>userId. Inr ()),
      agentStream = (\<lambda>thread text. Inr [''You lead the board'']),
      send = (\<lambda>k cid text. Inl (Error ''network down''))\<rparr>
     1000 2000
     \<lparr>contentTypeId = Some ''text'', content = JStr ''@squabble leaderboard'',
      fallback = JUndefined, parameters = JObj [], senderInboxId = ''alice'',
      conversationId = ''c1''\<rparr>
     Map.empty
   = \<lparr>completion = Rejected (Error ''network down''), final = Map.empty,
      calls = [GetConversation ''c1'', InboxState ''alice'', InitializeAgent ''alice'',
               AgentStream ''alice'' (JStr ''@squabble leaderboard''),
               Send ''c1'' ''You lead the board'', Send ''c1'' APOLOGY]\<rparr>
   \<and> startMessageListener_p2
     [\<lparr>incoming = Some \<lparr>contentTypeId = Some ''text'', content = JStr ''@squabble leaderboard'',
           fallback = JUndefined, parameters = JObj [], senderInboxId = ''alice'',
           conversationId = ''c1''\<rparr>,
       answering = \<lparr>inboxId = ''bot'',
           getConversationById = (\<lambda>cid. Inr (Some \<lparr>conv_id = cid\<rparr>)),
           inboxStateFromInboxIds = (\<lambda>sender. Inr JNull),
           initializeAgent = (\<lambda>userId. Inr ()),
           agentStream = (\<lambda>thread text. Inr [''You lead the board'']),
           send = (\<lambda>k cid text. Inl (Error ''network down''))\<rparr>,
       clock_now = 1000, clock_later = 2000\<rparr>,
      \<lparr>incoming = Some \<lparr>contentTypeId = Some ''text'', content = JStr ''@squabble help'',
           fallback = JUndefined, parameters = JObj [], senderInboxId = ''carol'',
           conversationId = ''c2''\<rparr>,
       answering = \<lparr>inboxId = ''bot'',
           getConversationById = (\<lambda>cid. Inr (Some \<lparr>conv_id = cid\<rparr>)),
           inboxStateFromInboxIds = (\<lambda>sender. Inr JNull),
           initializeAgent = (\<lambda>userId. Inr ()),
           agentStream = (\<lambda>thread text. Inr [''Here are the rules'']),
           send = (\<lambda>k cid text. Inr ''m9'')\<rparr>,
       clock_now = 5000, clock_later = 6000\<rparr>]
     Map.empty
   = \<lparr>completion = Rejected (Error ''network down''), final = Map.empty,
      calls = [GetConversation ''c1'', InboxState ''alice'', InitializeAgent ''alice'',
               AgentStream ''alice'' (JStr ''@squabble leaderboard''),
               Send ''c1'' ''You lead the board'', Send ''c1'' APOLOGY]\<rparr>"
proof -
  let ?cl = "\<lparr>inboxId = ''bot'',
      getConversationById = (\<lambda>cid. Inr (Some \<lparr>conv_id = cid\<rparr>)),
      inboxStateFromInboxIds = (\<lambda>sender. Inr JNull),
      initializeAgent = (\<lambda>userId. Inr ()),
      agentStream = (\<lambda>thread text. Inr [''You lead the board'']),
      send = (\<lambda>k cid text. Inl (Error ''network down''))\<rparr>"
  let ?m = "\<lparr>contentTypeId = Some ''text'', content = JStr ''@squabble leaderboard'',
      fallback = JUndefined, parameters = JObj [], senderInboxId = ''alice'',
      conversationId = ''c1''\<rparr>"
  have mc: "extractMessageContent ?m = Inr (JStr ''@squabble leaderboard'')"
    by (simp add: extractMessageContent_def return_String_def)
  have t: "trim ''@squabble leaderboard'' = ''@squabble leaderboard''"
    by (simp add: trim_def trimStart_def trimEnd_def WHITE_SPACE_def)
  have l: "toLowerCase ''@squabble leaderboard'' = ''@squabble leaderboard''"
    by (simp add: lower_char_def)
  have admitted: "shouldRespondToMessage_p2 1000 Map.empty ?m ''bot'' = Inr True"
    by (simp add: shouldRespond_p2_on_text [OF mc] t l isReplyToAgent_def
        isWithinContextWindow_def hasTrigger_p2_def SQUABBLE_TRIGGERS_p2_def lower_char_def)
  have reply: "processMessage ?cl ''alice'' (JStr ''@squabble leaderboard'') = ''You lead the board''"
    by (simp add: processMessage_def trim_def trimStart_def trimEnd_def WHITE_SPACE_def)
  have sentinel: "trim ''You lead the board'' \<noteq> ''TOOL_HANDLED''"
    by (simp add: trim_def trimStart_def trimEnd_def WHITE_SPACE_def)
  have other: "toLowerCase ''alice'' \<noteq> toLowerCase ''bot''"
    by (simp add: lower_char_def)
  have attempt: "handleMessage_try_p2 ?cl 1000 2000 ?m Map.empty
     = \<lparr>thrown = Some (Error ''network down''), conversation = Some \<lparr>conv_id = ''c1''\<rparr>,
        store = Map.empty,
        trace = [GetConversation ''c1'', InboxState ''alice'', InitializeAgent ''alice'',
                 AgentStream ''alice'' (JStr ''@squabble leaderboard''),
                 Send ''c1'' ''You lead the board'']\<rparr>"
    using other
    by (simp add: handleMessage_try_p2_def Let_def mc admitted reply sentinel)
  have one: "handleMessage_p2 ?cl 1000 2000 ?m Map.empty
     = \<lparr>completion = Rejected (Error ''network down''), final = Map.empty,
        calls = [GetConversation ''c1'', InboxState ''alice'', InitializeAgent ''alice'',
                 AgentStream ''alice'' (JStr ''@squabble leaderboard''),
                 Send ''c1'' ''You lead the board'', Send ''c1'' APOLOGY]\<rparr>"
    by (simp add: handleMessage_p2_def attempt catch_block_def sends_made_def)
  show ?thesis
    by (simp add: startMessageListener_p2_def one)
qed

section \<open>Facts about \<open>includes\<close>, \<open>trim\<close> and the handler of \<open>part_001\<close>\<close>

lemma startsWith_iff: "startsWith s t \<longleftrightarrow> (\<exists>ss. s = t @ ss)"
  by (induction s t rule: startsWith.induct) auto
lemma js_includes_iff: "js_includes s t \<longleftrightarrow> (\<exists>ps ss. s = ps @ t @ ss)"
proof (induction s)
  case Nil
  then show ?case by auto
next
  case (Cons c cs)
  show ?case
  proof
    assume "js_includes (c # cs) t"
    then consider "startsWith (c # cs) t" | "js_includes cs t" by auto
    then show "\<exists>ps ss. c # cs = ps @ t @ ss"
    proof cases
      case 1
      then obtain ss where "c # cs = t @ ss" by (auto simp: startsWith_iff)
      then have "c # cs = [] @ t @ ss" by simp
      then show ?thesis by blast
    next
      case 2
      with Cons.IH obtain ps ss where "cs = ps @ t @ ss" by blast
      then have "c # cs = (c # ps) @ t @ ss" by simp
      then show ?thesis by blast
    qed
  next
    assume "\<exists>ps ss. c # cs = ps @ t @ ss"
    then obtain ps ss where e: "c # cs = ps @ t @ ss" by blast
    show "js_includes (c # cs) t"
    proof (cases ps)
      case Nil
      with e have "startsWith (c # cs) t" by (auto simp: startsWith_iff)
      then show ?thesis by simp
    next
      case (Cons p ps')
      with e have "cs = ps' @ t @ ss" by simp
      with Cons.IH have "js_includes cs t" by blast
      then show ?thesis by simp
    qed
  qed
qed
text \<open>
  Stripping stops in front of a character that occurs in none of the stripped sequences.
\<close>

lemma strip_keeps_occurrence:
  assumes "[] \<notin> set ws" and "\<forall>w\<in>set ws. c \<notin> set w"
  shows "\<exists>ps'. strip ws (ps @ c # rest) = ps' @ c # rest"
proof (induction ps rule: length_induct)
  case (1 ps)
  show ?case
  proof (cases ps)
    case Nil
    have "find (startsWith (c # rest)) ws = None"
    proof (rule ccontr)
      assume "find (startsWith (c # rest)) ws \<noteq> None"
      then obtain w where w: "w \<in> set ws" "startsWith (c # rest) w"
        by (auto simp: find_None_iff)
      from w(1) assms(1) have "w \<noteq> []" by metis
      then obtain a w' where "w = a # w'" by (cases w) auto
      with w(2) have "c \<in> set w" by simp
      with w(1) assms(2) show False by blast
    qed
    with Nil have "strip ws (ps @ c # rest) = [] @ c # rest" by simp
    then show ?thesis by blast
  next
    case (Cons p ps')
    show ?thesis
    proof (cases "find (startsWith (p # ps' @ c # rest)) ws")
      case None
      with Cons have "strip ws (ps @ c # rest) = ps @ c # rest" by simp
      then show ?thesis by blast
    next
      case (Some w)
      then have w: "w \<in> set ws" "startsWith (p # ps' @ c # rest) w"
        by (auto simp: find_Some_iff)
      from w(1) assms(1) have "w \<noteq> []" by metis
      then obtain a w' where ww: "w = a # w'" by (cases w) auto
      from w(2) ww obtain ss where ss: "ps' @ c # rest = w' @ ss"
        by (auto simp: startsWith_iff)
      from w(1) assms(2) ww have cw: "c \<notin> set w'" by auto
      from ss cw obtain us where us: "ps' = w' @ us"
      proof -
        from ss consider vs where "ps' = w' @ vs" | vs where "ps' @ vs = w'" "c # rest = vs @ ss"
          by (auto simp: append_eq_append_conv2)
        then show ?thesis
        proof cases
          case 1
          then show ?thesis by (rule that)
        next
          case 2
          show ?thesis
          proof (cases vs)
            case Nil
            with 2 have "ps' = w' @ []" by simp
            then show ?thesis by (rule that)
          next
            case (Cons v vs')
            with 2 have "c \<in> set w'" by auto
            with cw show ?thesis by contradiction
          qed
        qed
      qed
      have "length us < length ps" using us Cons by simp
      with "1.IH" obtain ps'' where "strip ws (us @ c # rest) = ps'' @ c # rest" by blast
      moreover have "strip ws (ps @ c # rest) = strip ws (us @ c # rest)"
        using Cons Some ww us by simp
      ultimately show ?thesis by auto
    qed
  qed
qed
lemma WHITE_SPACE_nonempty: "[] \<notin> set WHITE_SPACE"
  by (simp add: WHITE_SPACE_def)
text \<open>A text with no white space at either end survives \<open>trim\<close> wherever it occurs.\<close>

lemma js_includes_trim:
  assumes "js_includes s t" and "t \<noteq> []"
    and "\<forall>w\<in>set WHITE_SPACE. hd t \<notin> set w" and "\<forall>w\<in>set WHITE_SPACE. last t \<notin> set w"
  shows "js_includes (trim s) t"
proof -
  from assms(1) obtain ps ss where s: "s = ps @ t @ ss" by (auto simp: js_includes_iff)
  from assms(2) obtain c t' where t: "t = c # t'" by (cases t) auto
  from assms(2) obtain e t'' where rt: "rev t = e # t''" by (cases "rev t") auto
  from rt have e: "e = last t" using assms(2) by (metis last_rev list.sel(1) rev_rev_ident hd_rev)
  from strip_keeps_occurrence [OF WHITE_SPACE_nonempty, of c ps "t' @ ss"] assms(3) t
  obtain ps' where l: "strip WHITE_SPACE (ps @ t @ ss) = ps' @ t @ ss" by auto
  have ne: "[] \<notin> set (map rev WHITE_SPACE)" using WHITE_SPACE_nonempty by auto
  have ew: "\<forall>w\<in>set (map rev WHITE_SPACE). e \<notin> set w" using assms(4) e by auto
  from strip_keeps_occurrence [OF ne ew, of "rev ss" "t'' @ rev ps'"] rt
  obtain ss' where r: "strip (map rev WHITE_SPACE) (rev ss @ rev t @ rev ps') = ss' @ rev t @ rev ps'"
    by auto
  have "trim s = ps' @ t @ rev ss'"
    by (simp add: trim_def trimStart_def trimEnd_def s l r)
  then show ?thesis by (auto simp: js_includes_iff)
qed
lemma hasTrigger_p1_iff: "hasTrigger_p1 s \<longleftrightarrow> js_includes s ''/squabble''"
  by (simp add: hasTrigger_p1_def SQUABBLE_TRIGGERS_p1_def lower_char_def)
lemma hasTrigger_p1_trim: "hasTrigger_p1 s \<Longrightarrow> hasTrigger_p1 (trim s)"
  unfolding hasTrigger_p1_iff
  by (rule js_includes_trim) (simp_all add: WHITE_SPACE_def)

lemma getConversationState_after_update:
  "\<not> isWaitingForResponse
       (fst (getConversationState now (updateConversationState now S cid False) cid))"
  by (simp add: getConversationState_def updateConversationState_def newState_def Let_def)
lemma getConversationState_empty:
  "\<not> isWaitingForResponse (fst (getConversationState now Map.empty cid))"
  by (simp add: getConversationState_def newState_def)
lemma getConversationState_live:
  "S cid = Some st \<Longrightarrow> now - lastUpdate st \<le> 60 * 1000 \<Longrightarrow> messageCount st < 5 \<Longrightarrow>
     getConversationState now S cid = (st, S)"
  by (simp add: getConversationState_def STATE_TIMEOUT_def MAX_CONTEXT_MESSAGES_def Let_def)
lemma shouldRespond_p1_not_waiting:
  "\<not> isWaitingForResponse (fst (getConversationState now S cid)) \<Longrightarrow>
     fst (shouldRespondToMessage_p1 now S message cid) = hasTrigger_p1 (trim (toLowerCase message))"
  by (cases "getConversationState now S cid") (simp add: shouldRespondToMessage_p1_def Let_def)
lemma shouldRespond_p1_waiting:
  "isWaitingForResponse (fst (getConversationState now S cid)) \<Longrightarrow>
     fst (shouldRespondToMessage_p1 now S message cid)"
  by (cases "getConversationState now S cid") (simp add: shouldRespondToMessage_p1_def Let_def)
text \<open>What the handler throws and calls from the trigger check on depends on the store
  only through the verdict of the trigger check.\<close>

lemma respond_with_agent_p1_store_free:
  "thrown (respond_with_agent_p1 cl later conv sender mc S1 tr)
     = thrown (respond_with_agent_p1 cl later conv sender mc S2 tr)
   \<and> conversation (respond_with_agent_p1 cl later conv sender mc S1 tr)
     = conversation (respond_with_agent_p1 cl later conv sender mc S2 tr)
   \<and> trace (respond_with_agent_p1 cl later conv sender mc S1 tr)
     = trace (respond_with_agent_p1 cl later conv sender mc S2 tr)"
  by (simp add: respond_with_agent_p1_def Let_def split: sum.splits)
lemma from_trigger_p1_store_free:
  assumes "fst (shouldRespondToMessage_p1 now S1 mc (conv_id conv))
         = fst (shouldRespondToMessage_p1 now S2 mc (conv_id conv))"
  shows "thrown (handleMessage_from_trigger_p1 cl now later conv sender mc S1 tr)
     = thrown (handleMessage_from_trigger_p1 cl now later conv sender mc S2 tr)
   \<and> conversation (handleMessage_from_trigger_p1 cl now later conv sender mc S1 tr)
     = conversation (handleMessage_from_trigger_p1 cl now later conv sender mc S2 tr)
   \<and> trace (handleMessage_from_trigger_p1 cl now later conv sender mc S1 tr)
     = trace (handleMessage_from_trigger_p1 cl now later conv sender mc S2 tr)"
proof -
  obtain b1 T1 where s1: "shouldRespondToMessage_p1 now S1 mc (conv_id conv) = (b1, T1)"
    by (cases "shouldRespondToMessage_p1 now S1 mc (conv_id conv)")
  obtain b2 T2 where s2: "shouldRespondToMessage_p1 now S2 mc (conv_id conv) = (b2, T2)"
    by (cases "shouldRespondToMessage_p1 now S2 mc (conv_id conv)")
  from assms s1 s2 have b: "b1 = b2" by simp
  show ?thesis
    using respond_with_agent_p1_store_free [of cl later conv sender mc T1 tr T2]
    by (simp add: handleMessage_from_trigger_p1_def s1 s2 b Let_def split: sum.splits)
qed
lemma catch_block_calls:
  "thrown a = thrown b \<Longrightarrow> conversation a = conversation b \<Longrightarrow> trace a = trace b \<Longrightarrow>
     calls (catch_block cl a) = calls (catch_block cl b)
     \<and> completion (catch_block cl a) = completion (catch_block cl b)"
  by (simp add: catch_block_def split: option.splits sum.splits)
lemma catch_block_returned:
  "thrown a = None \<Longrightarrow>
     catch_block cl a = \<lparr>completion = Returned, final = store a, calls = trace a\<rparr>"
  by (simp add: catch_block_def)
text \<open>What an admitted message leads to: the bet prompt, or a run of the agent.\<close>

lemma respond_with_agent_p1_sent:
  assumes "inboxStateFromInboxIds cl sender = Inr senderInboxState"
    and "initializeAgent cl sender = Inr agent"
    and "send cl 0 (conv_id conv) (processMessage cl sender (JStr mc)) = Inr mid"
  shows "respond_with_agent_p1 cl later conv sender mc S tr =
     \<lparr>thrown = None, conversation = Some conv,
      store = setConversationState later S (conv_id conv) True mc,
      trace = tr @ [InboxState sender, InitializeAgent sender, AgentStream sender (JStr mc),
                    Send (conv_id conv) (processMessage cl sender (JStr mc))]\<rparr>"
  using assms by (simp add: respond_with_agent_p1_def Let_def)
lemma from_trigger_p1_bet_prompt:
  assumes "fst (shouldRespondToMessage_p1 now S mc (conv_id conv))"
    and "js_includes (toLowerCase mc) ''/squabble start''"
    and "\<not> js_includes (toLowerCase mc) ''bet''"
    and "send cl 0 (conv_id conv) BET_PROMPT = Inr mid"
  shows "handleMessage_from_trigger_p1 cl now later conv sender mc S tr =
     \<lparr>thrown = None, conversation = Some conv,
      store = setConversationState now (snd (shouldRespondToMessage_p1 now S mc (conv_id conv)))
                (conv_id conv) True ''/squabble start'',
      trace = tr @ [Send (conv_id conv) BET_PROMPT]\<rparr>"
  using assms
  by (cases "shouldRespondToMessage_p1 now S mc (conv_id conv)")
    (simp add: handleMessage_from_trigger_p1_def Let_def)
lemma from_trigger_p1_agent:
  assumes "fst (shouldRespondToMessage_p1 now S mc (conv_id conv))"
    and "\<not> (js_includes (toLowerCase mc) ''/squabble start''
            \<and> \<not> js_includes (toLowerCase mc) ''bet'')"
  shows "handleMessage_from_trigger_p1 cl now later conv sender mc S tr =
     respond_with_agent_p1 cl later conv sender mc
       (snd (shouldRespondToMessage_p1 now S mc (conv_id conv))) tr"
  using assms
  by (cases "shouldRespondToMessage_p1 now S mc (conv_id conv)")
    (auto simp: handleMessage_from_trigger_p1_def Let_def)
lemma setConversationState_entry:
  "setConversationState t S cid w command cid =
     Some \<lparr>isWaitingForResponse = w, lastCommand = command,
            messageCount = messageCount (case S cid of Some st \<Rightarrow> st | None \<Rightarrow> newState t) + 1,
            lastUpdate = t\<rparr>"
  by (simp add: setConversationState_def Let_def)

text \<open>
  Claim C5 as stated fails. A stored state that is waiting but older than \<open>STATE_TIMEOUT\<close>
  is reset when the handler reads it: a message with no trigger keyword is then not
  admitted, and the agent is not run.
\<close>

theorem handleMessage_p1_expired_waiting_counterexample:
  "handleMessage_p1
     \<lparr>inboxId = ''bot'',
      getConversationById = (\<lambda>cid. Inr (Some \<lparr>conv_id = cid\<rparr>)),
      inboxStateFromInboxIds = (\<lambda>sender. Inr JNull),
      initializeAgent = (\<lambda>userId. Inr ()),
      agentStream = (\<lambda>thread text. Inr [''Game created'']),
      send = (\<lambda>k cid text. Inr ''m1'')\<rparr>
     200000 201000
     \<lparr>contentTypeId = Some ''text'', content = JStr ''no bet'',
      fallback = JUndefined, parameters = JObj [], senderInboxId = ''alice'',
      conversationId = ''c1''\<rparr>
     [''c1'' \<mapsto> \<lparr>isWaitingForResponse = True, lastCommand = ''/squabble start'',
                 messageCount = 1, lastUpdate = 1000\<rparr>]
   = \<lparr>completion = Returned,
      final = [''c1'' \<mapsto> \<lparr>isWaitingForResponse = False, lastCommand = [],
                         messageCount = 0, lastUpdate = 200000\<rparr>],
      calls = [GetConversation ''c1'']\<rparr>"
proof -
  have l: "toLowerCase ''no bet'' = ''no bet''" "toLowerCase ''alice'' \<noteq> toLowerCase ''bot''"
    by (simp_all add: lower_char_def)
  have t: "trim ''no bet'' = ''no bet''"
    by (simp add: trim_def trimStart_def trimEnd_def WHITE_SPACE_def)
  show ?thesis
    using l(2)
    by (simp add: handleMessage_p1_def handleMessage_try_p1_def
        handleMessage_from_trigger_p1_def shouldRespondToMessage_p1_def
        getConversationState_def newState_def STATE_TIMEOUT_def MAX_CONTEXT_MESSAGES_def
        hasTrigger_p1_def SQUABBLE_TRIGGERS_p1_def shouldSendHelpHint_p1_def l(1) t
        lower_char_def catch_block_def Let_def)
qed
text \<open>
  Claim C5, amended. Take a conversation whose stored state is waiting for a response and
  has not expired (\<open>now - lastUpdate\<close> at most \<open>STATE_TIMEOUT\<close>, \<open>messageCount\<close> below
  \<open>MAX_CONTEXT_MESSAGES\<close>), and a message from another participant, in \<open>part_001\<close>, whose
  content \<open>String\<close> converts and whose conversation resolves.
  When the text holds a trigger keyword, the handler first resets the state (not waiting,
  count raised by one) and goes on from the trigger check with the reset store; the trigger
  check admits the message, as it admits the same message in a conversation with no state
  at all, and the handler makes the same calls and completes the same way as for that
  first-time message: for \<open>/squabble start\<close> without \<open>bet\<close> it asks for the bet and waits;
  otherwise it runs the agent on the text and sends the answer.
  When the text holds no trigger keyword, the message is admitted and the agent is run on
  the text as extracted, unchanged; its answer is sent and the state stays waiting.
\<close>

theorem handleMessage_p1_waiting:
  assumes other: "toLowerCase (senderInboxId message) \<noteq> toLowerCase (inboxId cl)"
    and mc: "js_String (content message) = Inr messageContent"
    and conv: "getConversationById cl (conversationId message) = Inr (Some conv)"
    and stored: "conversationStates (conv_id conv) = Some st"
    and waiting: "isWaitingForResponse st"
    and live: "now - lastUpdate st \<le> 60 * 1000" "messageCount st < 5"
    and reset: "reset = conversationStates(conv_id conv \<mapsto>
                  \<lparr>isWaitingForResponse = False, lastCommand = lastCommand st,
                   messageCount = messageCount st + 1, lastUpdate = now\<rparr>)"
    and run: "run = handleMessage_p1 cl now later message conversationStates"
  shows "(hasTrigger_p1 (toLowerCase messageContent) \<longrightarrow>
            handleMessage_try_p1 cl now later message conversationStates
              = handleMessage_from_trigger_p1 cl now later conv (senderInboxId message)
                  messageContent reset [GetConversation (conversationId message)]
          \<and> fst (shouldRespondToMessage_p1 now reset messageContent (conv_id conv))
          \<and> fst (shouldRespondToMessage_p1 now Map.empty messageContent (conv_id conv))
          \<and> calls run = calls (handleMessage_p1 cl now later message Map.empty)
          \<and> completion run = completion (handleMessage_p1 cl now later message Map.empty)
          \<and> (js_includes (toLowerCase messageContent) ''/squabble start''
              \<and> \<not> js_includes (toLowerCase messageContent) ''bet'' \<longrightarrow>
               (\<forall>mid. send cl 0 (conv_id conv) BET_PROMPT = Inr mid \<longrightarrow>
                  completion run = Returned
                  \<and> calls run = [GetConversation (conversationId message),
                                 Send (conv_id conv) BET_PROMPT]
                  \<and> (\<exists>st'. final run (conv_id conv) = Some st' \<and> isWaitingForResponse st'
                         \<and> lastCommand st' = ''/squabble start'')))
          \<and> (\<not> (js_includes (toLowerCase messageContent) ''/squabble start''
                 \<and> \<not> js_includes (toLowerCase messageContent) ''bet'') \<longrightarrow>
               (\<forall>senderInboxState agent mid.
                  inboxStateFromInboxIds cl (senderInboxId message) = Inr senderInboxState
                  \<longrightarrow> initializeAgent cl (senderInboxId message) = Inr agent
                  \<longrightarrow> send cl 0 (conv_id conv)
                         (processMessage cl (senderInboxId message) (JStr messageContent)) = Inr mid
                  \<longrightarrow> completion run = Returned
                    \<and> calls run = [GetConversation (conversationId message),
                                   InboxState (senderInboxId message),
                                   InitializeAgent (senderInboxId message),
                                   AgentStream (senderInboxId message) (JStr messageContent),
                                   Send (conv_id conv)
                                     (processMessage cl (senderInboxId message)
                                        (JStr messageContent))]
                    \<and> (\<exists>st'. final run (conv_id conv) = Some st' \<and> isWaitingForResponse st'
                           \<and> lastCommand st' = messageContent \<and> lastUpdate st' = later))))
       \<and> (\<not> hasTrigger_p1 (toLowerCase messageContent) \<longrightarrow>
            fst (shouldRespondToMessage_p1 now conversationStates messageContent (conv_id conv))
          \<and> (\<forall>senderInboxState agent mid.
                inboxStateFromInboxIds cl (senderInboxId message) = Inr senderInboxState
                \<longrightarrow> initializeAgent cl (senderInboxId message) = Inr agent
                \<longrightarrow> send cl 0 (conv_id conv)
                       (processMessage cl (senderInboxId message) (JStr messageContent)) = Inr mid
                \<longrightarrow> run = \<lparr>completion = Returned,
                           final = conversationStates(conv_id conv \<mapsto>
                             \<lparr>isWaitingForResponse = True, lastCommand = messageContent,
                              messageCount = messageCount st + 1, lastUpdate = later\<rparr>),
                           calls = [GetConversation (conversationId message),
                                    InboxState (senderInboxId message),
                                    InitializeAgent (senderInboxId message),
                                    AgentStream (senderInboxId message) (JStr messageContent),
                                    Send (conv_id conv)
                                      (processMessage cl (senderInboxId message)
                                         (JStr messageContent))]\<rparr>))"
proof -
  let ?cid = "conv_id conv"
  let ?sender = "senderInboxId message"
  let ?tr1 = "[GetConversation (conversationId message)]"
  let ?response = "processMessage cl ?sender (JStr messageContent)"
  let ?prompt = "js_includes (toLowerCase messageContent) ''/squabble start''
                 \<and> \<not> js_includes (toLowerCase messageContent) ''bet''"
  have g: "getConversationState now conversationStates ?cid = (st, conversationStates)"
    using stored live by (rule getConversationState_live)
  have r: "reset = updateConversationState now conversationStates ?cid False"
    by (simp add: reset updateConversationState_def stored Let_def)
  have hnt: "list_ex (\<lambda>trigger. js_includes (toLowerCase messageContent) (toLowerCase trigger))
               SQUABBLE_TRIGGERS_p1 = hasTrigger_p1 (toLowerCase messageContent)"
    by (simp add: hasTrigger_p1_def)
  have trigger_part: ?thesis if t: "hasTrigger_p1 (toLowerCase messageContent)"
  proof -
    have try_eq: "handleMessage_try_p1 cl now later message conversationStates
              = handleMessage_from_trigger_p1 cl now later conv ?sender messageContent reset ?tr1"
      using other conv waiting t
      by (simp add: handleMessage_try_p1_def Let_def g r mc hnt)
    have nw: "\<not> isWaitingForResponse (fst (getConversationState now reset ?cid))"
      unfolding r by (rule getConversationState_after_update)
    from t have tt: "hasTrigger_p1 (trim (toLowerCase messageContent))"
      by (rule hasTrigger_p1_trim)
    have v1: "fst (shouldRespondToMessage_p1 now reset messageContent ?cid)"
      using shouldRespond_p1_not_waiting [OF nw] tt by simp
    have v2: "fst (shouldRespondToMessage_p1 now Map.empty messageContent ?cid)"
      using shouldRespond_p1_not_waiting [OF getConversationState_empty] tt by simp
    have first_try: "handleMessage_try_p1 cl now later message Map.empty
              = handleMessage_from_trigger_p1 cl now later conv ?sender messageContent
                  [?cid \<mapsto> newState now] ?tr1"
      using other conv
      by (simp add: handleMessage_try_p1_def Let_def getConversationState_def newState_def mc)
    have v3: "fst (shouldRespondToMessage_p1 now [?cid \<mapsto> newState now] messageContent ?cid)"
    proof -
      have "\<not> isWaitingForResponse
                (fst (getConversationState now [?cid \<mapsto> newState now] ?cid))"
        by (simp add: getConversationState_def newState_def Let_def)
      from shouldRespond_p1_not_waiting [OF this] tt show ?thesis by simp
    qed
    from v1 v3 have same:
      "fst (shouldRespondToMessage_p1 now reset messageContent ?cid)
         = fst (shouldRespondToMessage_p1 now [?cid \<mapsto> newState now] messageContent ?cid)"
      by simp
    note free = from_trigger_p1_store_free [OF same, of cl later ?sender ?tr1]
    from catch_block_calls [of
        "handleMessage_from_trigger_p1 cl now later conv ?sender messageContent reset ?tr1"
        "handleMessage_from_trigger_p1 cl now later conv ?sender messageContent
           [?cid \<mapsto> newState now] ?tr1" cl] free
    have both: "calls run = calls (handleMessage_p1 cl now later message Map.empty)
          \<and> completion run = completion (handleMessage_p1 cl now later message Map.empty)"
      by (simp add: run handleMessage_p1_def try_eq first_try)
    have prompt: "completion run = Returned
          \<and> calls run = [GetConversation (conversationId message), Send ?cid BET_PROMPT]
          \<and> (\<exists>st'. final run ?cid = Some st' \<and> isWaitingForResponse st'
                 \<and> lastCommand st' = ''/squabble start'')"
      if p: ?prompt and s: "send cl 0 ?cid BET_PROMPT = Inr mid" for mid
    proof -
      from p have p1: "js_includes (toLowerCase messageContent) ''/squabble start''"
        and p2: "\<not> js_includes (toLowerCase messageContent) ''bet''" by simp_all
      show ?thesis
        by (simp add: run handleMessage_p1_def try_eq
            from_trigger_p1_bet_prompt [OF v1 p1 p2 s] catch_block_returned
            setConversationState_entry)
    qed
    have agent: "completion run = Returned
          \<and> calls run = [GetConversation (conversationId message), InboxState ?sender,
                         InitializeAgent ?sender, AgentStream ?sender (JStr messageContent),
                         Send ?cid ?response]
          \<and> (\<exists>st'. final run ?cid = Some st' \<and> isWaitingForResponse st'
                 \<and> lastCommand st' = messageContent \<and> lastUpdate st' = later)"
      if p: "\<not> ?prompt"
        and i: "inboxStateFromInboxIds cl ?sender = Inr senderInboxState"
        and a: "initializeAgent cl ?sender = Inr agent"
        and s: "send cl 0 ?cid ?response = Inr mid" for senderInboxState agent mid
      by (simp add: run handleMessage_p1_def try_eq from_trigger_p1_agent [OF v1 p]
          respond_with_agent_p1_sent [OF i a s] catch_block_returned
          setConversationState_entry)
    from t try_eq v1 v2 both prompt agent show ?thesis by blast
  qed
  have plain_part: ?thesis if nt: "\<not> hasTrigger_p1 (toLowerCase messageContent)"
  proof -
    have v: "fst (shouldRespondToMessage_p1 now conversationStates messageContent ?cid)"
      by (rule shouldRespond_p1_waiting) (simp add: g waiting)
    have try_eq: "handleMessage_try_p1 cl now later message conversationStates
              = respond_with_agent_p1 cl later conv ?sender messageContent conversationStates ?tr1"
      using other conv waiting nt
      by (simp add: handleMessage_try_p1_def Let_def g mc hnt)
    have agent: "run = \<lparr>completion = Returned,
                  final = conversationStates(?cid \<mapsto>
                     \<lparr>isWaitingForResponse = True, lastCommand = messageContent,
                      messageCount = messageCount st + 1, lastUpdate = later\<rparr>),
                  calls = [GetConversation (conversationId message), InboxState ?sender,
                           InitializeAgent ?sender, AgentStream ?sender (JStr messageContent),
                           Send ?cid ?response]\<rparr>"
      if i: "inboxStateFromInboxIds cl ?sender = Inr senderInboxState"
        and a: "initializeAgent cl ?sender = Inr agent"
        and s: "send cl 0 ?cid ?response = Inr mid" for senderInboxState agent mid
      by (simp add: run handleMessage_p1_def try_eq respond_with_agent_p1_sent [OF i a s]
          catch_block_returned setConversationState_def stored Let_def)
    from nt v agent show ?thesis by blast
  qed
  from trigger_part plain_part show ?thesis by blast
qed

theorem handleMessage_p1_waiting_witness:
  "calls (handleMessage_p1
     \<lparr>inboxId = ''bot'',
      getConversationById = (\<lambda>cid. Inr (Some \<lparr>conv_id = cid\<rparr>)),
      inboxStateFromInboxIds = (\<lambda>sender. Inr JNull),
      initializeAgent = (\<lambda>userId. Inr ()),
      agentStream = (\<lambda>thread text. Inr [''Game created'']),
      send = (\<lambda>k cid text. Inr ''m1'')\<rparr>
     2000 3000
     \<lparr>contentTypeId = Some ''text'', content = JStr ''/Squabble start'',
      fallback = JUndefined, parameters = JObj [], senderInboxId = ''alice'',
      conversationId = ''c1''\<rparr>
     [''c1'' \<mapsto> \<lparr>isWaitingForResponse = True, lastCommand = ''/squabble start'',
                 messageCount = 1, lastUpdate = 1000\<rparr>])
   = [GetConversation ''c1'', Send ''c1'' BET_PROMPT]
   \<and> calls (handleMessage_p1
     \<lparr>inboxId = ''bot'',
      getConversationById = (\<lambda>cid. Inr (Some \<lparr>conv_id = cid\<rparr>)),
      inboxStateFromInboxIds = (\<lambda>sender. Inr JNull),
      initializeAgent = (\<lambda>userId. Inr ()),
      agentStream = (\<lambda>thread text. Inr [''Game created'']),
      send = (\<lambda>k cid text. Inr ''m1'')\<rparr>
     2000 3000
     \<lparr>contentTypeId = Some ''text'', content = JStr ''/Squabble leaderboard'',
      fallback = JUndefined, parameters = JObj [], senderInboxId = ''alice'',
      conversationId = ''c1''\<rparr>
     [''c1'' \<mapsto> \<lparr>isWaitingForResponse = True, lastCommand = ''/squabble start'',
                 messageCount = 1, lastUpdate = 1000\<rparr>])
   = [GetConversation ''c1'', InboxState ''alice'', InitializeAgent ''alice'',
      AgentStream ''alice'' (JStr ''/Squabble leaderboard''), Send ''c1'' ''Game created'']
   \<and> handleMessage_p1
     \<lparr>inboxId = ''bot'',
      getConversationById = (\<lambda>cid. Inr (Some \<lparr>conv_id = cid\<rparr>)),
      inboxStateFromInboxIds = (\<lambda>sender. Inr JNull),
      initializeAgent = (\<lambda>userId. Inr ()),
      agentStream = (\<lambda>thread text. Inr [''Game created'']),
      send = (\<lambda>k cid text. Inr ''m1'')\<rparr>
     2000 3000
     \<lparr>contentTypeId = Some ''text'', content = JStr ''no bet'',
      fallback = JUndefined, parameters = JObj [], senderInboxId = ''alice'',
      conversationId = ''c1''\<rparr>
     [''c1'' \<mapsto> \<lparr>isWaitingForResponse = True, lastCommand = ''/squabble start'',
                 messageCount = 1, lastUpdate = 1000\<rparr>]
   = \<lparr>completion = Returned,
      final = [''c1'' \<mapsto> \<lparr>isWaitingForResponse = True, lastCommand = ''no bet'',
                         messageCount = 2, lastUpdate = 3000\<rparr>],
      calls = [GetConversation ''c1'', InboxState ''alice'', InitializeAgent ''alice'',
               AgentStream ''alice'' (JStr ''no bet''), Send ''c1'' ''Game created'']\<rparr>"
proof -
  let ?cl = "\<lparr>inboxId = ''bot'',
      getConversationById = (\<lambda>cid. Inr (Some \<lparr>conv_id = cid\<rparr>)),
      inboxStateFromInboxIds = (\<lambda>sender. Inr JNull),
      initializeAgent = (\<lambda>userId. Inr ()),
      agentStream = (\<lambda>thread text. Inr [''Game created'']),
      send = (\<lambda>k cid text. Inr ''m1'')\<rparr>"
  let ?m0 = "\<lparr>contentTypeId = Some ''text'', content = JStr ''/Squabble start'',
      fallback = JUndefined, parameters = JObj [], senderInboxId = ''alice'',
      conversationId = ''c1''\<rparr>"
  let ?m1 = "\<lparr>contentTypeId = Some ''text'', content = JStr ''/Squabble leaderboard'',
      fallback = JUndefined, parameters = JObj [], senderInboxId = ''alice'',
      conversationId = ''c1''\<rparr>"
  let ?m2 = "\<lparr>contentTypeId = Some ''text'', content = JStr ''no bet'',
      fallback = JUndefined, parameters = JObj [], senderInboxId = ''alice'',
      conversationId = ''c1''\<rparr>"
  let ?st = "\<lparr>isWaitingForResponse = True, lastCommand = ''/squabble start'',
                 messageCount = 1, lastUpdate = 1000\<rparr>"
  let ?S = "[''c1'' \<mapsto> ?st]"
  let ?conv = "\<lparr>conv_id = ''c1''\<rparr>"
  have other: "toLowerCase (senderInboxId ?m0) \<noteq> toLowerCase (inboxId ?cl)"
      "toLowerCase (senderInboxId ?m1) \<noteq> toLowerCase (inboxId ?cl)"
      "toLowerCase (senderInboxId ?m2) \<noteq> toLowerCase (inboxId ?cl)"
    by (simp_all add: lower_char_def)
  have mc: "js_String (content ?m0) = Inr ''/Squabble start''"
      "js_String (content ?m1) = Inr ''/Squabble leaderboard''"
      "js_String (content ?m2) = Inr ''no bet''"
    by simp_all
  have conv: "getConversationById ?cl (conversationId ?m0) = Inr (Some ?conv)"
      "getConversationById ?cl (conversationId ?m1) = Inr (Some ?conv)"
      "getConversationById ?cl (conversationId ?m2) = Inr (Some ?conv)"
    by simp_all
  have stored: "?S (conv_id ?conv) = Some ?st" by simp
  have waiting: "isWaitingForResponse ?st" by simp
  have live: "2000 - lastUpdate ?st \<le> 60 * 1000" "messageCount ?st < 5" by simp_all
  have l0: "toLowerCase ''/Squabble start'' = ''/squabble start''"
    and l1: "toLowerCase ''/Squabble leaderboard'' = ''/squabble leaderboard''"
    and l2: "toLowerCase ''no bet'' = ''no bet''"
    by (simp_all add: lower_char_def)
  have t0: "hasTrigger_p1 (toLowerCase ''/Squabble start'')"
    and t1: "hasTrigger_p1 (toLowerCase ''/Squabble leaderboard'')"
    and t2: "\<not> hasTrigger_p1 (toLowerCase ''no bet'')"
    unfolding l0 l1 l2 hasTrigger_p1_iff by simp_all
  have p0: "js_includes (toLowerCase ''/Squabble start'') ''/squabble start''
            \<and> \<not> js_includes (toLowerCase ''/Squabble start'') ''bet''"
    and p1: "\<not> (js_includes (toLowerCase ''/Squabble leaderboard'') ''/squabble start''
            \<and> \<not> js_includes (toLowerCase ''/Squabble leaderboard'') ''bet'')"
    unfolding l0 l1 by simp_all
  have sb: "send ?cl 0 (conv_id ?conv) BET_PROMPT = Inr ''m1''" by simp
  have i: "inboxStateFromInboxIds ?cl (senderInboxId ?m1) = Inr JNull"
      "inboxStateFromInboxIds ?cl (senderInboxId ?m2) = Inr JNull"
    and a: "initializeAgent ?cl (senderInboxId ?m1) = Inr ()"
      "initializeAgent ?cl (senderInboxId ?m2) = Inr ()"
    and sr: "send ?cl 0 (conv_id ?conv)
               (processMessage ?cl (senderInboxId ?m1) (JStr ''/Squabble leaderboard'')) = Inr ''m1''"
      "send ?cl 0 (conv_id ?conv)
               (processMessage ?cl (senderInboxId ?m2) (JStr ''no bet'')) = Inr ''m1''"
    by simp_all
  have answer: "processMessage ?cl ''alice'' (JStr msg) = ''Game created''" for msg
    by (simp add: processMessage_def trim_def trimStart_def trimEnd_def WHITE_SPACE_def)
  note T0 = handleMessage_p1_waiting [where cl = ?cl and message = ?m0 and now = 2000
      and later = 3000 and conversationStates = ?S and conv = ?conv and st = ?st
      and messageContent = "''/Squabble start''",
      OF other(1) mc(1) conv(1) stored waiting live refl refl]
  from T0 t0 p0 sb
  have "calls (handleMessage_p1 ?cl 2000 3000 ?m0 ?S)
          = [GetConversation (conversationId ?m0), Send (conv_id ?conv) BET_PROMPT]"
    by blast
  then have first: "calls (handleMessage_p1 ?cl 2000 3000 ?m0 ?S)
             = [GetConversation ''c1'', Send ''c1'' BET_PROMPT]"
    by simp
  note T1 = handleMessage_p1_waiting [where cl = ?cl and message = ?m1 and now = 2000
      and later = 3000 and conversationStates = ?S and conv = ?conv and st = ?st
      and messageContent = "''/Squabble leaderboard''",
      OF other(2) mc(2) conv(2) stored waiting live refl refl]
  from T1 t1 p1 i(1) a(1) sr(1)
  have "calls (handleMessage_p1 ?cl 2000 3000 ?m1 ?S)
          = [GetConversation (conversationId ?m1), InboxState (senderInboxId ?m1),
             InitializeAgent (senderInboxId ?m1),
             AgentStream (senderInboxId ?m1) (JStr ''/Squabble leaderboard''),
             Send (conv_id ?conv)
               (processMessage ?cl (senderInboxId ?m1) (JStr ''/Squabble leaderboard''))]"
    by blast
  then have second: "calls (handleMessage_p1 ?cl 2000 3000 ?m1 ?S)
             = [GetConversation ''c1'', InboxState ''alice'', InitializeAgent ''alice'',
                AgentStream ''alice'' (JStr ''/Squabble leaderboard''),
                Send ''c1'' ''Game created'']"
    by (simp add: answer)
  note T2 = handleMessage_p1_waiting [where cl = ?cl and message = ?m2 and now = 2000
      and later = 3000 and conversationStates = ?S and conv = ?conv and st = ?st
      and messageContent = "''no bet''",
      OF other(3) mc(3) conv(3) stored waiting live refl refl]
  from T2 t2 i(2) a(2) sr(2)
  have "handleMessage_p1 ?cl 2000 3000 ?m2 ?S
     = \<lparr>completion = Returned,
        final = ?S(conv_id ?conv \<mapsto>
                  \<lparr>isWaitingForResponse = True, lastCommand = ''no bet'',
                   messageCount = messageCount ?st + 1, lastUpdate = 3000\<rparr>),
        calls = [GetConversation (conversationId ?m2), InboxState (senderInboxId ?m2),
                 InitializeAgent (senderInboxId ?m2),
                 AgentStream (senderInboxId ?m2) (JStr ''no bet''),
                 Send (conv_id ?conv)
                   (processMessage ?cl (senderInboxId ?m2) (JStr ''no bet''))]\<rparr>"
    by blast
  then have third: "handleMessage_p1 ?cl 2000 3000 ?m2 ?S
     = \<lparr>completion = Returned,
        final = [''c1'' \<mapsto> \<lparr>isWaitingForResponse = True, lastCommand = ''no bet'',
                         messageCount = 2, lastUpdate = 3000\<rparr>],
        calls = [GetConversation ''c1'', InboxState ''alice'', InitializeAgent ''alice'',
                 AgentStream ''alice'' (JStr ''no bet''), Send ''c1'' ''Game created'']\<rparr>"
    by (simp add: answer)
  from first second third show ?thesis by blast
qed

end
